theory Spec2Isabelle
  imports Complex_Main "HOL-Library.Word"
begin

section \<open>JavaScript values\<close>

text \<open>
  A JavaScript string is a sequence of UTF-16 code units. String literals of the source
  are written with \<open>ustr\<close>; the em dash U+2014 is the single code unit \<open>0x2014\<close>.
\<close>

type_synonym code_unit = "16 word"
type_synonym jstr = "code_unit list"

definition ustr :: "string \<Rightarrow> jstr" where
  "ustr s = map (\<lambda>c. of_nat (of_char c)) s"

text \<open>
  A Number is NaN, an infinity, or a finite double, which is modelled by its exact real
  value. Sums and products of such values are taken exactly; IEEE arithmetic agrees
  whenever the exact result is an integer below \<open>2^53\<close> in magnitude, which covers every
  time value (at most \<open>8.64e15\<close>).
\<close>

datatype number = NaN | PosInfinity | NegInfinity | Num real

text \<open>
  What \<open>JSON.parse\<close> produces, together with \<open>undefined\<close>, the value of a property
  that is absent.
\<close>

datatype jsval =
    JUndefined
  | JNull
  | JBool bool
  | JNum number
  | JStr jstr
  | JArr "jsval list"
  | JObj "(jstr \<times> jsval) list"

fun truthy :: "jsval \<Rightarrow> bool" where
  "truthy JUndefined = False"
| "truthy JNull = False"
| "truthy (JBool b) = b"
| "truthy (JNum n) = (n \<noteq> NaN \<and> n \<noteq> Num 0)"
| "truthy (JStr s) = (s \<noteq> [])"
| "truthy (JArr xs) = True"
| "truthy (JObj kvs) = True"

text \<open>\<open>v || {}\<close>\<close>

definition or_empty_object :: "jsval \<Rightarrow> jsval" where
  "or_empty_object v = (if truthy v then v else JObj [])"

text \<open>
  The property read \<open>v.k\<close> for the keys the handlers read (\<open>slot\<close>, \<open>customer\<close>,
  \<open>title\<close>, \<open>startIso\<close>, \<open>endIso\<close>, \<open>availabilityEventId\<close>, \<open>name\<close>, \<open>phone\<close>,
  \<open>email\<close>, \<open>notes\<close>): an own property of a parsed object, and \<open>undefined\<close> on every
  other value, since no prototype of a string, number, boolean, array or plain object has
  a property of one of these names. The handlers read properties of \<open>v || {}\<close> only, which
  is never \<open>undefined\<close> or \<open>null\<close>, so the TypeError of such a read cannot arise.
\<close>

fun get_prop :: "jsval \<Rightarrow> jstr \<Rightarrow> jsval" where
  "get_prop (JObj kvs) k = (case map_of kvs k of Some v \<Rightarrow> v | None \<Rightarrow> JUndefined)"
| "get_prop v k = JUndefined"

text \<open>
  The parts of the JavaScript runtime and of its host that the handlers depend on and
  that are left open: how \<open>Date.parse\<close> reads a string (implementation-defined outside
  the ISO format; \<open>None\<close> is NaN), \<open>ToString\<close> of a value that is not a string, how
  \<open>Number\<close> reads a string, and the offset of the server's local time zone, in
  milliseconds, at a UTC time value and at a local time value.
\<close>

record runtime =
  Date_parse :: "jstr \<Rightarrow> int option"
  ToString_other :: "jsval \<Rightarrow> jstr"
  StringToNumber :: "jstr \<Rightarrow> number"
  LocalTZA_utc :: "int \<Rightarrow> int"
  LocalTZA_local :: "int \<Rightarrow> int"

definition ToString :: "runtime \<Rightarrow> jsval \<Rightarrow> jstr" where
  "ToString rt v = (case v of JStr s \<Rightarrow> s | _ \<Rightarrow> ToString_other rt v)"

section \<open>Strings: \<open>trim\<close> and the e-mail pattern\<close>

text \<open>
  White space and line terminators of ECMA-262: what \<open>String.prototype.trim\<close> strips and
  what \<open>\s\<close> matches.
\<close>

definition is_space :: "code_unit \<Rightarrow> bool" where
  "is_space c \<longleftrightarrow>
     c \<in> set [0x0009, 0x000A, 0x000B, 0x000C, 0x000D, 0x0020, 0x00A0, 0x1680,
              0x2028, 0x2029, 0x202F, 0x205F, 0x3000, 0xFEFF]
     \<or> (0x2000 \<le> c \<and> c \<le> 0x200A)"

definition trim :: "jstr \<Rightarrow> jstr" where
  "trim s = rev (dropWhile is_space (rev (dropWhile is_space s)))"

text \<open>
  The pattern \<open>/^[^\s@]+@[^\s@]+\.[^\s@]+$/\<close>: a sequence of items, each a single
  code unit or one-or-more code units of a class, matched against the whole string.
\<close>

datatype atom = NotSpaceNorAt | Literal code_unit

datatype item = One atom | Plus atom

fun atom_matches :: "atom \<Rightarrow> code_unit \<Rightarrow> bool" where
  "atom_matches NotSpaceNorAt c = (\<not> is_space c \<and> c \<noteq> 0x40)"
| "atom_matches (Literal l) c = (c = l)"

fun matches :: "item list \<Rightarrow> jstr \<Rightarrow> bool" where
  "matches [] s = (s = [])"
| "matches (One a # r) [] = False"
| "matches (One a # r) (c # s) = (atom_matches a c \<and> matches r s)"
| "matches (Plus a # r) [] = False"
| "matches (Plus a # r) (c # s) =
     (atom_matches a c \<and> (matches (Plus a # r) s \<or> matches r s))"

definition email_pattern :: "item list" where
  "email_pattern =
     [Plus NotSpaceNorAt, One (Literal 0x40), Plus NotSpaceNorAt, One (Literal 0x2E),
      Plus NotSpaceNorAt]"

definition isEmail :: "jsval \<Rightarrow> bool" where
  "isEmail s = (case s of JStr x \<Rightarrow> matches email_pattern x | _ \<Rightarrow> False)"

definition mustString :: "jsval \<Rightarrow> bool" where
  "mustString s = (case s of JStr x \<Rightarrow> length (trim x) > 0 | _ \<Rightarrow> False)"

section \<open>Dates\<close>

text \<open>
  A Date holds a time value: an integral number of milliseconds since the epoch, at most
  \<open>8.64e15\<close> in magnitude, or NaN (\<open>None\<close>).
\<close>

definition ToIntegerOrInfinity :: "real \<Rightarrow> int" where
  "ToIntegerOrInfinity x = (if x < 0 then \<lceil>x\<rceil> else \<lfloor>x\<rfloor>)"

definition TimeClip :: "number \<Rightarrow> int option" where
  "TimeClip n =
     (case n of
        Num x \<Rightarrow> if \<bar>x\<bar> > 8640000000000000 then None else Some (ToIntegerOrInfinity x)
      | _ \<Rightarrow> None)"

text \<open>
  \<open>new Date(v)\<close>: a string is parsed; any other primitive is converted to a number
  (\<open>undefined\<close> to NaN, \<open>null\<close> to 0, a boolean to 0 or 1); an array or object is
  first converted to a string.
\<close>

definition date_of_string :: "runtime \<Rightarrow> jstr \<Rightarrow> int option" where
  "date_of_string rt s =
     (case Date_parse rt s of None \<Rightarrow> None | Some t \<Rightarrow> TimeClip (Num (of_int t)))"

fun newDate :: "runtime \<Rightarrow> jsval \<Rightarrow> int option" where
  "newDate rt JUndefined = None"
| "newDate rt JNull = Some 0"
| "newDate rt (JBool b) = Some (if b then 1 else 0)"
| "newDate rt (JNum n) = TimeClip n"
| "newDate rt (JStr s) = date_of_string rt s"
| "newDate rt v = date_of_string rt (ToString rt v)"

text \<open>
  The string \<open>d.toISOString()\<close> of a valid Date is represented by the instant it
  denotes: \<open>ISO t\<close> is the ISO-8601 text of the time value \<open>t\<close>, and
  \<open>new Date(ISO t)\<close> has the time value \<open>t\<close> again (ECMA-262 requires \<open>Date.parse\<close> to
  invert \<open>toISOString\<close>). On an invalid Date \<open>toISOString\<close> throws a RangeError.
\<close>

datatype iso = ISO int

datatype error = RangeError | CollaboratorError nat

definition toISOString :: "int option \<Rightarrow> error + iso" where
  "toISOString d = (case d of None \<Rightarrow> Inl RangeError | Some t \<Rightarrow> Inr (ISO t))"

definition toIsoOrNull :: "runtime \<Rightarrow> jsval \<Rightarrow> iso option" where
  "toIsoOrNull rt s =
     (let d = newDate rt s
      in if d = None then None
         else (case toISOString d of Inl e \<Rightarrow> None | Inr x \<Rightarrow> Some x))"

definition msPerMinute :: int where "msPerMinute = 60000"
definition msPerHour :: int where "msPerHour = 3600000"
definition msPerDay :: int where "msPerDay = 86400000"

definition LocalTime :: "runtime \<Rightarrow> int \<Rightarrow> int" where
  "LocalTime rt t = t + LocalTZA_utc rt t"

definition UTC :: "runtime \<Rightarrow> int \<Rightarrow> int" where
  "UTC rt t = t - LocalTZA_local rt t"

definition Day :: "int \<Rightarrow> int" where "Day t = t div msPerDay"
definition HourFromTime :: "int \<Rightarrow> int" where "HourFromTime t = (t div msPerHour) mod 24"
definition MinFromTime :: "int \<Rightarrow> int" where "MinFromTime t = (t div msPerMinute) mod 60"
definition SecFromTime :: "int \<Rightarrow> int" where "SecFromTime t = (t div 1000) mod 60"
definition msFromTime :: "int \<Rightarrow> int" where "msFromTime t = t mod 1000"

definition MakeTime :: "int \<Rightarrow> int \<Rightarrow> int \<Rightarrow> int \<Rightarrow> int" where
  "MakeTime h m s ms = h * msPerHour + m * msPerMinute + s * 1000 + ms"

definition MakeDate :: "int \<Rightarrow> int \<Rightarrow> int" where
  "MakeDate day time = day * msPerDay + time"

definition getMinutes :: "runtime \<Rightarrow> int \<Rightarrow> int" where
  "getMinutes rt t = MinFromTime (LocalTime rt t)"

text \<open>
  \<open>d.setMinutes(m)\<close> on a valid Date: the minute field of the local time is replaced by
  the integral part of \<open>m\<close>, and the result is converted back to UTC and clipped to the
  range of time values. A minute that is not finite leaves an invalid Date.
\<close>

definition setMinutes :: "runtime \<Rightarrow> int \<Rightarrow> number \<Rightarrow> int option" where
  "setMinutes rt t m =
     (case m of
        Num x \<Rightarrow>
          (let tl = LocalTime rt t;
               date = MakeDate (Day tl)
                        (MakeTime (HourFromTime tl) (ToIntegerOrInfinity x)
                           (SecFromTime tl) (msFromTime tl))
           in TimeClip (Num (of_int (UTC rt date))))
      | _ \<Rightarrow> None)"

text \<open>The sum \<open>a + b\<close> of two Numbers.\<close>

fun num_add :: "number \<Rightarrow> number \<Rightarrow> number" where
  "num_add (Num a) (Num b) = Num (a + b)"
| "num_add NaN b = NaN"
| "num_add a NaN = NaN"
| "num_add PosInfinity NegInfinity = NaN"
| "num_add NegInfinity PosInfinity = NaN"
| "num_add PosInfinity b = PosInfinity"
| "num_add a PosInfinity = PosInfinity"
| "num_add NegInfinity b = NegInfinity"
| "num_add a NegInfinity = NegInfinity"

section \<open>Configuration\<close>

text \<open>
  \<open>process.env\<close>: every variable is a string or absent. Both files read it by
  destructuring with defaults, and a default applies to an absent variable only.
\<close>

record process_env =
  GOOGLE_CLIENT_ID :: "jstr option"
  GOOGLE_CLIENT_SECRET :: "jstr option"
  GOOGLE_REDIRECT_URI :: "jstr option"
  GOOGLE_REFRESH_TOKEN :: "jstr option"
  GOOGLE_CALENDAR_ID :: "jstr option"
  TIMEZONE :: "jstr option"
  BOOKING_DURATION_MINUTES :: "jstr option"
  DELETE_AVAILABILITY :: "jstr option"

definition with_default :: "jstr option \<Rightarrow> string \<Rightarrow> jstr" where
  "with_default v d = (case v of None \<Rightarrow> ustr d | Some s \<Rightarrow> s)"

definition calendar_id :: "process_env \<Rightarrow> jstr" where
  "calendar_id env = with_default (GOOGLE_CALENDAR_ID env) ''primary''"

definition timezone :: "process_env \<Rightarrow> jstr" where
  "timezone env = with_default (TIMEZONE env) ''America/New_York''"

definition booking_duration_minutes :: "process_env \<Rightarrow> jstr" where
  "booking_duration_minutes env = with_default (BOOKING_DURATION_MINUTES env) ''60''"

definition delete_availability :: "process_env \<Rightarrow> jstr" where
  "delete_availability env = with_default (DELETE_AVAILABILITY env) ''false''"

text \<open>\<open>!X\<close> for an environment variable: absent or the empty string.\<close>

definition missing :: "jstr option \<Rightarrow> bool" where
  "missing v = (case v of None \<Rightarrow> True | Some s \<Rightarrow> s = [])"

section \<open>The calendar collaborator\<close>

text \<open>
  The three operations of the calendar client, with the shapes of the client library's
  types: every field of a response may be absent. An operation returns or throws, and may
  change the state \<open>'w\<close> of the outside world.
\<close>

type_synonym time_period = "jstr \<times> jstr"

record freebusy_calendar =
  busy :: "time_period list option"

record freebusy_response =
  calendars :: "(jstr \<times> freebusy_calendar) list option"

record event =
  event_id :: "jstr option"
  event_htmlLink :: "jstr option"

record 'a api_response =
  data :: "'a option"

record freebusy_request =
  timeMin :: iso
  timeMax :: iso
  timeZone :: jstr
  items :: "jstr list"

record event_resource =
  summary :: jstr
  description :: jstr
  start_dateTime :: iso
  start_timeZone :: jstr
  end_dateTime :: iso
  end_timeZone :: jstr
  attendees :: "jstr list"

record insert_request =
  calendarId :: jstr
  requestBody :: event_resource
  sendUpdates :: jstr

record delete_request =
  del_calendarId :: jstr
  del_eventId :: jstr
  del_sendUpdates :: jstr

type_synonym freebusy_result = "error + freebusy_response api_response option"
type_synonym insert_result = "error + event api_response option"
type_synonym delete_result = "error + unit"

record 'w calendar_api =
  freebusy_query :: "freebusy_request \<Rightarrow> 'w \<Rightarrow> freebusy_result \<times> 'w"
  events_insert :: "insert_request \<Rightarrow> 'w \<Rightarrow> insert_result \<times> 'w"
  events_delete :: "delete_request \<Rightarrow> 'w \<Rightarrow> delete_result \<times> 'w"

text \<open>The calls a handler makes, in order, each with what the collaborator answered.\<close>

datatype call =
    FreeBusyQuery freebusy_request freebusy_result
  | EventsInsert insert_request insert_result
  | EventsDelete delete_request delete_result

text \<open>\<open>fb?.data?.calendars?.[GOOGLE_CALENDAR_ID]?.busy || []\<close>\<close>

definition busy_of :: "jstr \<Rightarrow> freebusy_response api_response option \<Rightarrow> time_period list" where
  "busy_of cal fb =
     (case Option.bind (Option.bind (Option.bind (Option.bind fb data) calendars)
             (\<lambda>cs. map_of cs cal)) busy of
        None \<Rightarrow> []
      | Some b \<Rightarrow> b)"

text \<open>\<open>s || null\<close> for a string that may be absent: the empty string is falsy.\<close>

definition or_null :: "jstr option \<Rightarrow> jstr option" where
  "or_null v = (case v of None \<Rightarrow> None | Some s \<Rightarrow> if s = [] then None else Some s)"

section \<open>Responses\<close>

datatype json_body =
    NoBody
  | ErrorBody jstr
  | BookedBody (eventId: "jstr option") (htmlLink: "jstr option")

record response =
  status :: nat
  json :: json_body

definition respond :: "nat \<Rightarrow> json_body \<Rightarrow> response" where
  "respond code b = \<lparr>status = code, json = b\<rparr>"

text \<open>The \<open>catch\<close> of the handler's \<open>try\<close>.\<close>

definition server_error :: response where
  "server_error = respond 500 (ErrorBody (ustr ''Server error creating booking.''))"

section \<open>The booking flow\<close>

text \<open>
  The end-time fall-back (server.js lines 109 to 114, \<open>part_000\<close> lines 55 to 60):
  \<^verbatim>\<open>const d = new Date(startIso);
  const minutes = Number(BOOKING_DURATION_MINUTES) || 60;
  d.setMinutes(d.getMinutes() + minutes);
  endIso = d.toISOString();\<close>
\<close>

definition duration_minutes :: "runtime \<Rightarrow> process_env \<Rightarrow> number" where
  "duration_minutes rt env =
     (let n = StringToNumber rt (booking_duration_minutes env)
      in if n = NaN \<or> n = Num 0 then Num 60 else n)"

definition fallback_end :: "runtime \<Rightarrow> process_env \<Rightarrow> iso \<Rightarrow> error + iso" where
  "fallback_end rt env startIso =
     (case startIso of
        ISO t \<Rightarrow>
          (let minutes = duration_minutes rt env;
               d = setMinutes rt t (num_add (Num (of_int (getMinutes rt t))) minutes)
           in toISOString d))"

text \<open>\<open>descriptionLines.join("\n")\<close>\<close>

fun join :: "jstr \<Rightarrow> jstr list \<Rightarrow> jstr" where
  "join sep [] = []"
| "join sep [x] = x"
| "join sep (x # y # ys) = x @ sep @ join sep (y # ys)"

definition description_text :: "runtime \<Rightarrow> jsval \<Rightarrow> jstr" where
  "description_text rt customer =
     (let descriptionLines =
            [ustr ''Booked via website'',
             [],
             ustr ''Player: '' @ ToString rt (get_prop customer (ustr ''name'')),
             ustr ''Phone: '' @ ToString rt (get_prop customer (ustr ''phone'')),
             ustr ''Email: '' @ ToString rt (get_prop customer (ustr ''email''))];
          notes = get_prop customer (ustr ''notes'')
      in join [0x0A]
           (if mustString notes
            then descriptionLines @ [[], ustr ''Notes:'', trim (ToString rt notes)]
            else descriptionLines))"

text \<open>
  The three calls (server.js lines 120 to 179, \<open>part_000\<close> lines 76 to 133), first the
  arguments of each. The two files differ in the separator of the summary only, which is
  the parameter \<open>sep\<close>.
\<close>

definition freebusy_request_of :: "process_env \<Rightarrow> iso \<Rightarrow> iso \<Rightarrow> freebusy_request" where
  "freebusy_request_of env startIso endIso =
     \<lparr>timeMin = startIso, timeMax = endIso, timeZone = timezone env,
      items = [calendar_id env]\<rparr>"

definition insert_request_of ::
  "jstr \<Rightarrow> runtime \<Rightarrow> process_env \<Rightarrow> jsval \<Rightarrow> jstr \<Rightarrow> iso \<Rightarrow> iso \<Rightarrow> insert_request" where
  "insert_request_of sep rt env customer title startIso endIso =
     \<lparr>calendarId = calendar_id env,
      requestBody =
        \<lparr>summary = ustr ''BOOKED: '' @ title @ sep
             @ ToString rt (get_prop customer (ustr ''name'')),
         description = description_text rt customer,
         start_dateTime = startIso, start_timeZone = timezone env,
         end_dateTime = endIso, end_timeZone = timezone env,
         attendees = [ToString rt (get_prop customer (ustr ''email''))]\<rparr>,
      sendUpdates = ustr ''all''\<rparr>"

definition delete_request_of :: "runtime \<Rightarrow> process_env \<Rightarrow> jsval \<Rightarrow> delete_request" where
  "delete_request_of rt env slot =
     \<lparr>del_calendarId = calendar_id env,
      del_eventId = ToString rt (get_prop slot (ustr ''availabilityEventId'')),
      del_sendUpdates = ustr ''none''\<rparr>"

text \<open>
  Step 3, the optional delete of the availability event: its own \<open>catch\<close> is empty, so
  whatever the call answers, the flow goes on.
\<close>

definition cleanup ::
  "runtime \<Rightarrow> process_env \<Rightarrow> 'w calendar_api \<Rightarrow> jsval \<Rightarrow> 'w \<Rightarrow> call list \<times> 'w" where
  "cleanup rt env calendar slot w =
     (if delete_availability env = ustr ''true''
         \<and> mustString (get_prop slot (ustr ''availabilityEventId''))
      then
        (let del = delete_request_of rt env slot;
             (deleted, w') = events_delete calendar del w
         in ([EventsDelete del deleted], w'))
      else ([], w))"

text \<open>
  Steps 1 and 2 and the response. A free/busy query or an insert that throws ends in the
  \<open>catch\<close> of the handler.
\<close>

definition book_slot ::
  "jstr \<Rightarrow> runtime \<Rightarrow> process_env \<Rightarrow> 'w calendar_api \<Rightarrow> jsval \<Rightarrow> jsval \<Rightarrow> jstr \<Rightarrow> iso \<Rightarrow> iso
     \<Rightarrow> 'w \<Rightarrow> (response \<times> call list) \<times> 'w" where
  "book_slot sep rt env calendar slot customer title startIso endIso w =
     (let q = freebusy_request_of env startIso endIso;
          (fb, w1) = freebusy_query calendar q w
      in case fb of
           Inl e \<Rightarrow> ((server_error, [FreeBusyQuery q fb]), w1)
         | Inr fb_response \<Rightarrow>
             if length (busy_of (calendar_id env) fb_response) > 0
             then ((respond 409
                      (ErrorBody (ustr ''That slot was just booked. Please pick another time.'')),
                    [FreeBusyQuery q fb]), w1)
             else
               (let ins = insert_request_of sep rt env customer title startIso endIso;
                    (created, w2) = events_insert calendar ins w1
                in case created of
                     Inl e \<Rightarrow>
                       ((server_error, [FreeBusyQuery q fb, EventsInsert ins created]), w2)
                   | Inr created_response \<Rightarrow>
                       (let (deletes, w3) = cleanup rt env calendar slot w2
                        in ((respond 200
                               (BookedBody
                                  (or_null (Option.bind (Option.bind created_response data) event_id))
                                  (or_null (Option.bind (Option.bind created_response data)
                                              event_htmlLink))),
                             [FreeBusyQuery q fb, EventsInsert ins created] @ deletes), w3))))"

text \<open>
  The body of the \<open>try\<close> block (server.js lines 96 to 179, \<open>part_000\<close> lines 44 to 133):
  the payload is read and normalised, the customer fields are checked, and the slot is
  booked. The result is the response, the calls made, and the state of the outside world.
\<close>

definition slot_of :: "jsval \<Rightarrow> jsval" where
  "slot_of req_body = or_empty_object (get_prop (or_empty_object req_body) (ustr ''slot''))"

definition customer_of :: "jsval \<Rightarrow> jsval" where
  "customer_of req_body =
     or_empty_object (get_prop (or_empty_object req_body) (ustr ''customer''))"

definition title_of :: "runtime \<Rightarrow> jsval \<Rightarrow> jstr" where
  "title_of rt slot =
     (if mustString (get_prop slot (ustr ''title''))
      then trim (ToString rt (get_prop slot (ustr ''title'')))
      else ustr ''Training Session'')"

definition booking ::
  "jstr \<Rightarrow> runtime \<Rightarrow> process_env \<Rightarrow> 'w calendar_api \<Rightarrow> jsval \<Rightarrow> 'w
     \<Rightarrow> (response \<times> call list) \<times> 'w" where
  "booking sep rt env calendar req_body w =
     (let slot = slot_of req_body;
          customer = customer_of req_body;
          title = title_of rt slot;
          startIso = toIsoOrNull rt (get_prop slot (ustr ''startIso''));
          endIso = toIsoOrNull rt (get_prop slot (ustr ''endIso''))
      in case startIso of
           None \<Rightarrow> ((respond 400 (ErrorBody (ustr ''Invalid start time.'')), []), w)
         | Some startIso \<Rightarrow>
             (case (case endIso of None \<Rightarrow> fallback_end rt env startIso | Some e \<Rightarrow> Inr e) of
                Inl e \<Rightarrow> ((server_error, []), w)
              | Inr endIso \<Rightarrow>
                  if \<not> mustString (get_prop customer (ustr ''name''))
                     \<or> \<not> mustString (get_prop customer (ustr ''phone''))
                     \<or> \<not> isEmail (get_prop customer (ustr ''email''))
                  then ((respond 400
                           (ErrorBody (ustr ''Please provide name, phone, and a valid email.'')),
                         []), w)
                  else book_slot sep rt env calendar slot customer title startIso endIso w))"

text \<open>
  The route \<open>POST /api/book\<close> of server.js. The file throws at start-up when a credential
  is missing, so the route only ever runs with all four present. Its summary separator
  (line 151) is not the em dash but the three code units U+00E2, U+20AC, U+201D between
  two spaces.
\<close>

definition server_separator :: jstr where
  "server_separator = [0x20, 0xE2, 0x20AC, 0x201D, 0x20]"

definition api_book ::
  "runtime \<Rightarrow> process_env \<Rightarrow> 'w calendar_api \<Rightarrow> jsval \<Rightarrow> 'w \<Rightarrow> (response \<times> call list) \<times> 'w" where
  "api_book rt env calendar req_body w = booking server_separator rt env calendar req_body w"

text \<open>
  The serverless \<open>handler\<close> of \<open>part_000\<close>: it answers by method first, then refuses to
  work without credentials, then runs the same flow, with an em dash in the summary.
\<close>

text \<open>The request: \<open>req.method\<close> and \<open>req.body\<close>.\<close>

record request =
  req_method :: jstr
  body :: jsval

definition handler_separator :: jstr where
  "handler_separator = [0x20, 0x2014, 0x20]"

definition handler ::
  "runtime \<Rightarrow> process_env \<Rightarrow> 'w calendar_api \<Rightarrow> request \<Rightarrow> 'w \<Rightarrow> (response \<times> call list) \<times> 'w" where
  "handler rt env calendar req w =
     (if req_method req = ustr ''OPTIONS'' then ((respond 204 NoBody, []), w)
      else if req_method req \<noteq> ustr ''POST''
      then ((respond 405 (ErrorBody (ustr ''Method not allowed'')), []), w)
      else if missing (GOOGLE_CLIENT_ID env) \<or> missing (GOOGLE_CLIENT_SECRET env)
              \<or> missing (GOOGLE_REDIRECT_URI env) \<or> missing (GOOGLE_REFRESH_TOKEN env)
      then ((respond 500
               (ErrorBody (ustr ''Server not configured (missing Google OAuth env vars).'')),
             []), w)
      else booking handler_separator rt env calendar (body req) w)"

section \<open>The shape of an e-mail address, as the specification words it\<close>

text \<open>
  \<open>local@domain.tld\<close>: a local part, an \<open>@\<close>, a domain, a dot and a top-level part,
  none of the three parts empty and none holding white space or a further \<open>@\<close>.
\<close>

definition local_domain_tld :: "jstr \<Rightarrow> bool" where
  "local_domain_tld s \<longleftrightarrow>
     (\<exists>l d t. s = l @ [0x40] @ d @ [0x2E] @ t \<and> l \<noteq> [] \<and> d \<noteq> [] \<and> t \<noteq> []
        \<and> (\<forall>c \<in> set (l @ d @ t). \<not> is_space c \<and> c \<noteq> 0x40))"

section \<open>Example runtimes, configurations, collaborators and requests\<close>

text \<open>
  A server whose local time zone is UTC. Its \<open>Date.parse\<close> and \<open>Number\<close> are given on
  the strings of the examples only: two ISO timestamps (1 March 2025, 10:00 UTC, and the
  last instant a Date can hold) and two durations.
\<close>

definition sample_runtime :: runtime where
  "sample_runtime =
     \<lparr>Date_parse = map_of [(ustr ''2025-03-01T10:00:00Z'', 1740823200000),
                           (ustr ''+275760-09-13T00:00:00.000Z'', 8640000000000000)],
      ToString_other = (\<lambda>v. ustr ''[object Object]''),
      StringToNumber =
        (\<lambda>s. case map_of [(ustr ''60'', Num 60), (ustr ''90.5'', Num (181 / 2))] s of
                Some n \<Rightarrow> n
              | None \<Rightarrow> NaN),
      LocalTZA_utc = (\<lambda>t. 0),
      LocalTZA_local = (\<lambda>t. 0)\<rparr>"

text \<open>
  The same server in the zone \<open>America/New_York\<close> around 2 November 2025, when daylight
  saving time ends at 06:00 UTC (02:00 local time): the offset is four hours before and
  five hours after; a local time is read with the offset before the change up to 02:00.
\<close>

definition new_york_runtime :: runtime where
  "new_york_runtime =
     sample_runtime
       \<lparr>LocalTZA_utc := (\<lambda>t. if t < 1762063200000 then - 14400000 else - 18000000),
        LocalTZA_local := (\<lambda>t. if t < 1762048800000 then - 14400000 else - 18000000)\<rparr>"

definition sample_env :: process_env where
  "sample_env =
     \<lparr>GOOGLE_CLIENT_ID = Some (ustr ''id''), GOOGLE_CLIENT_SECRET = Some (ustr ''secret''),
      GOOGLE_REDIRECT_URI = Some (ustr ''uri''), GOOGLE_REFRESH_TOKEN = Some (ustr ''token''),
      GOOGLE_CALENDAR_ID = None, TIMEZONE = None, BOOKING_DURATION_MINUTES = None,
      DELETE_AVAILABILITY = None\<rparr>"

definition cleanup_env :: process_env where
  "cleanup_env = sample_env\<lparr>DELETE_AVAILABILITY := Some (ustr ''true'')\<rparr>"

definition long_env :: process_env where
  "long_env = sample_env\<lparr>BOOKING_DURATION_MINUTES := Some (ustr ''90.5'')\<rparr>"

definition vague_env :: process_env where
  "vague_env = sample_env\<lparr>BOOKING_DURATION_MINUTES := Some (ustr ''soon'')\<rparr>"

text \<open>
  A collaborator that reports the given busy intervals for the calendar \<open>primary\<close>,
  answers every insert with the given event, and every delete with the given outcome. Its
  state counts the events inserted.
\<close>

definition freebusy_answer :: "time_period list \<Rightarrow> freebusy_response api_response option" where
  "freebusy_answer busy_now =
     Some \<lparr>data = Some \<lparr>calendars = Some [(ustr ''primary'', \<lparr>busy = Some busy_now\<rparr>)]\<rparr>\<rparr>"

definition fake_calendar :: "time_period list \<Rightarrow> event \<Rightarrow> delete_result \<Rightarrow> nat calendar_api" where
  "fake_calendar busy_now ev del =
     \<lparr>freebusy_query = (\<lambda>q w. (Inr (freebusy_answer busy_now), w)),
      events_insert = (\<lambda>i w. (Inr (Some \<lparr>data = Some ev\<rparr>), Suc w)),
      events_delete = (\<lambda>d w. (del, w))\<rparr>"

definition sample_event :: event where
  "sample_event =
     \<lparr>event_id = Some (ustr ''evt1''),
      event_htmlLink = Some (ustr ''https://calendar.example/evt1'')\<rparr>"

definition unnamed_event :: event where
  "unnamed_event =
     \<lparr>event_id = Some [], event_htmlLink = Some (ustr ''https://calendar.example/evt1'')\<rparr>"

definition one_busy :: "time_period list" where
  "one_busy = [(ustr ''2025-03-01T10:00:00Z'', ustr ''2025-03-01T11:00:00Z'')]"

definition booking_payload :: "(jstr \<times> jsval) list \<Rightarrow> (jstr \<times> jsval) list \<Rightarrow> jsval" where
  "booking_payload slot customer =
     JObj [(ustr ''slot'', JObj slot), (ustr ''customer'', JObj customer)]"

definition jane_customer :: "(jstr \<times> jsval) list" where
  "jane_customer =
     [(ustr ''name'', JStr (ustr ''Jane'')), (ustr ''phone'', JStr (ustr ''555-1234'')),
      (ustr ''email'', JStr (ustr ''jane@example.com''))]"

definition jane :: jsval where
  "jane = booking_payload [(ustr ''startIso'', JStr (ustr ''2025-03-01T10:00:00Z''))] jane_customer"

definition jane_with_placeholder :: jsval where
  "jane_with_placeholder =
     booking_payload
       [(ustr ''startIso'', JStr (ustr ''2025-03-01T10:00:00Z'')),
        (ustr ''availabilityEventId'', JStr (ustr ''avail1''))]
       (jane_customer @ [(ustr ''notes'', JStr (ustr '' left-handed ''))])"

definition no_start :: jsval where
  "no_start = booking_payload [] jane_customer"

definition far_future :: jsval where
  "far_future =
     booking_payload [(ustr ''startIso'', JStr (ustr ''+275760-09-13T00:00:00.000Z''))]
       jane_customer"

definition far_future_nameless :: jsval where
  "far_future_nameless =
     booking_payload [(ustr ''startIso'', JStr (ustr ''+275760-09-13T00:00:00.000Z''))]
       [(ustr ''name'', JStr []), (ustr ''phone'', JStr (ustr ''555-1234'')),
        (ustr ''email'', JStr (ustr ''jane@example.com''))]"

definition post :: "jsval \<Rightarrow> request" where
  "post b = \<lparr>req_method = ustr ''POST'', body = b\<rparr>"

text \<open>
  The free/busy query and the insert of Jane's booking, from 10:00 to 11:00 UTC, and two
  requests by other methods.
\<close>

definition jane_query :: "process_env \<Rightarrow> freebusy_request" where
  "jane_query env = freebusy_request_of env (ISO 1740823200000) (ISO 1740826800000)"

definition jane_insert :: "jstr \<Rightarrow> process_env \<Rightarrow> jsval \<Rightarrow> insert_request" where
  "jane_insert sep env customer =
     insert_request_of sep sample_runtime env customer (ustr ''Training Session'')
       (ISO 1740823200000) (ISO 1740826800000)"

definition options_request :: request where
  "options_request = \<lparr>req_method = ustr ''OPTIONS'', body = jane\<rparr>"

definition get_request :: request where
  "get_request = \<lparr>req_method = ustr ''GET'', body = jane\<rparr>"

section \<open>Strings and code units\<close>

lemma of_char_lt: "(of_char c :: nat) < 256"
proof -
  have "(of_char c :: nat) mod 256 < 256" by simp
  then show ?thesis by (simp only: of_char_mod_256)
qed

lemma unat_code_unit: "unat (of_nat (of_char c) :: code_unit) = of_char c"
proof -
  have "(of_char c :: nat) < 65536" using of_char_lt [of c] by linarith
  then show ?thesis by (simp add: unat_of_nat)
qed

lemma ustr_inject [simp]: "ustr a = ustr b \<longleftrightarrow> a = b"
proof -
  have "inj (\<lambda>c::char. (of_nat (of_char c) :: code_unit))"
  proof (rule injI)
    fix x y :: char
    assume "(of_nat (of_char x) :: code_unit) = of_nat (of_char y)"
    then have "unat (of_nat (of_char x) :: code_unit) = unat (of_nat (of_char y) :: code_unit)"
      by simp
    then have "(of_char x :: nat) = of_char y"
      by (simp only: unat_code_unit)
    then show "x = y" by simp
  qed
  then show ?thesis
    unfolding ustr_def by (simp add: inj_map_eq_map)
qed

lemma ustr_Nil [simp]: "ustr s = [] \<longleftrightarrow> s = []" "[] = ustr s \<longleftrightarrow> s = []"
  by (auto simp: ustr_def)

lemma mustString_iff: "mustString v \<longleftrightarrow> (\<exists>x. v = JStr x \<and> trim x \<noteq> [])"
  by (cases v) (simp_all add: mustString_def)

lemma isEmail_iff: "isEmail v \<longleftrightarrow> (\<exists>x. v = JStr x \<and> matches email_pattern x)"
  by (cases v) (simp_all add: isEmail_def)

section \<open>The e-mail pattern matches exactly the shape \<open>local@domain.tld\<close>\<close>

lemma matches_One:
  "matches (One a # r) s \<longleftrightarrow> (\<exists>c v. s = c # v \<and> atom_matches a c \<and> matches r v)"
  by (cases s) auto

lemma matches_Plus:
  "matches (Plus a # r) s \<longleftrightarrow>
     (\<exists>u v. s = u @ v \<and> u \<noteq> [] \<and> (\<forall>c \<in> set u. atom_matches a c) \<and> matches r v)"
proof (induction s)
  case Nil
  then show ?case by simp
next
  case (Cons c s)
  show ?case
  proof
    assume "matches (Plus a # r) (c # s)"
    then have c: "atom_matches a c" and rest: "matches (Plus a # r) s \<or> matches r s"
      by simp_all
    from rest show "\<exists>u v. c # s = u @ v \<and> u \<noteq> [] \<and> (\<forall>c \<in> set u. atom_matches a c) \<and> matches r v"
    proof
      assume "matches (Plus a # r) s"
      with Cons.IH obtain u v where "s = u @ v" "u \<noteq> []" "\<forall>c \<in> set u. atom_matches a c" "matches r v"
        by blast
      with c have "c # s = (c # u) @ v \<and> c # u \<noteq> [] \<and> (\<forall>x \<in> set (c # u). atom_matches a x) \<and> matches r v"
        by simp
      then show ?thesis by blast
    next
      assume "matches r s"
      with c have "c # s = [c] @ s \<and> [c] \<noteq> [] \<and> (\<forall>x \<in> set [c]. atom_matches a x) \<and> matches r s"
        by simp
      then show ?thesis by blast
    qed
  next
    assume "\<exists>u v. c # s = u @ v \<and> u \<noteq> [] \<and> (\<forall>c \<in> set u. atom_matches a c) \<and> matches r v"
    then obtain u v where uv: "c # s = u @ v" "u \<noteq> []" "\<forall>c \<in> set u. atom_matches a c" "matches r v"
      by blast
    then obtain u' where u: "u = c # u'" "s = u' @ v"
      by (cases u) auto
    show "matches (Plus a # r) (c # s)"
    proof (cases "u' = []")
      case True
      with u uv show ?thesis by simp
    next
      case False
      with u uv have "matches (Plus a # r) s"
        using Cons.IH by auto
      with u uv show ?thesis by simp
    qed
  qed
qed

lemma matches_PlusI:
  "u \<noteq> [] \<Longrightarrow> \<forall>c \<in> set u. atom_matches a c \<Longrightarrow> matches r v \<Longrightarrow> matches (Plus a # r) (u @ v)"
  unfolding matches_Plus by blast

lemma matches_end: "matches [Plus a] s \<longleftrightarrow> s \<noteq> [] \<and> (\<forall>c \<in> set s. atom_matches a c)"
  by (auto simp: matches_Plus)

lemma email_pattern_shape: "matches email_pattern s \<longleftrightarrow> local_domain_tld s"
proof
  assume "matches email_pattern s"
  then obtain l v1 where 1: "s = l @ v1" "l \<noteq> []" "\<forall>c \<in> set l. atom_matches NotSpaceNorAt c"
      "matches [One (Literal 0x40), Plus NotSpaceNorAt, One (Literal 0x2E), Plus NotSpaceNorAt] v1"
    unfolding email_pattern_def matches_Plus [of _ "One _ # _"] by blast
  then obtain v2 where 2: "v1 = 0x40 # v2"
      "matches [Plus NotSpaceNorAt, One (Literal 0x2E), Plus NotSpaceNorAt] v2"
    unfolding matches_One by auto
  then obtain d v3 where 3: "v2 = d @ v3" "d \<noteq> []" "\<forall>c \<in> set d. atom_matches NotSpaceNorAt c"
      "matches [One (Literal 0x2E), Plus NotSpaceNorAt] v3"
    unfolding matches_Plus [of _ "One _ # _"] by blast
  then obtain t where 4: "v3 = 0x2E # t" "matches [Plus NotSpaceNorAt] t"
    unfolding matches_One by auto
  from 1 2 3 4 have "s = l @ [0x40] @ d @ [0x2E] @ t \<and> l \<noteq> [] \<and> d \<noteq> [] \<and> t \<noteq> []
        \<and> (\<forall>c \<in> set (l @ d @ t). \<not> is_space c \<and> c \<noteq> 0x40)"
    by (auto simp: matches_end)
  then show "local_domain_tld s"
    unfolding local_domain_tld_def by blast
next
  assume "local_domain_tld s"
  then obtain l d t where s: "s = l @ [0x40] @ d @ [0x2E] @ t" "l \<noteq> []" "d \<noteq> []" "t \<noteq> []"
      "\<forall>c \<in> set (l @ d @ t). \<not> is_space c \<and> c \<noteq> 0x40"
    unfolding local_domain_tld_def by blast
  then have cls: "\<forall>c \<in> set l. atom_matches NotSpaceNorAt c" "\<forall>c \<in> set d. atom_matches NotSpaceNorAt c"
    by simp_all
  from s have "matches [Plus NotSpaceNorAt] t"
    by (simp add: matches_end)
  then have "matches [One (Literal 0x2E), Plus NotSpaceNorAt] (0x2E # t)"
    by simp
  from matches_PlusI [OF s(3) cls(2) this]
  have "matches [One (Literal 0x40), Plus NotSpaceNorAt, One (Literal 0x2E), Plus NotSpaceNorAt]
               (0x40 # d @ 0x2E # t)"
    by simp
  from matches_PlusI [OF s(2) cls(1) this] s(1) show "matches email_pattern s"
    by (simp add: email_pattern_def)
qed

section \<open>Adding minutes to a Date\<close>

text \<open>
  Replacing the minute field of a time value moves it by whole minutes; in a zone of
  constant offset \<open>setMinutes(getMinutes() + k)\<close> therefore adds \<open>k\<close> minutes to the
  instant, as long as the result is a time value.
\<close>

lemma time_fields:
  "MakeDate (Day t) (MakeTime (HourFromTime t) m (SecFromTime t) (msFromTime t))
     = t + (m - MinFromTime t) * msPerMinute"
proof -
  define q1 q2 q3 q4 where "q1 = t div 1000" and "q2 = t div 60000"
    and "q3 = t div 3600000" and "q4 = t div 86400000"
  define r0 r1 r2 r3 where "r0 = t mod 1000" and "r1 = q1 mod 60"
    and "r2 = q2 mod 60" and "r3 = q3 mod 24"
  have s: "t = 1000 * q1 + r0"
    by (simp add: q1_def r0_def)
  have "q2 = q1 div 60"
    using zdiv_zmult2_eq [of 60 t 1000] by (simp add: q1_def q2_def)
  then have m: "q1 = 60 * q2 + r1"
    by (simp add: r1_def)
  have "q3 = q2 div 60"
    using zdiv_zmult2_eq [of 60 t 60000] by (simp add: q2_def q3_def)
  then have h: "q2 = 60 * q3 + r2"
    by (simp add: r2_def)
  have "q4 = q3 div 24"
    using zdiv_zmult2_eq [of 24 t 3600000] by (simp add: q3_def q4_def)
  then have d: "q3 = 24 * q4 + r3"
    by (simp add: r3_def)
  have "q4 * 86400000 + (r3 * 3600000 + m * 60000 + r1 * 1000 + r0) = t + (m - r2) * 60000"
    using s m h d by (simp add: algebra_simps)
  then show ?thesis
    unfolding MakeDate_def MakeTime_def Day_def HourFromTime_def SecFromTime_def
      msFromTime_def MinFromTime_def msPerDay_def msPerHour_def msPerMinute_def
      q1_def q2_def q3_def q4_def r0_def r1_def r2_def r3_def .
qed

lemma ToIntegerOrInfinity_of_int [simp]: "ToIntegerOrInfinity (of_int k) = k"
  by (simp add: ToIntegerOrInfinity_def)

lemma setMinutes_fixed_zone:
  assumes "\<And>u. LocalTZA_utc rt u = z" and "\<And>u. LocalTZA_local rt u = z"
  shows "setMinutes rt t (num_add (Num (of_int (getMinutes rt t))) (Num (of_int k)))
           = TimeClip (Num (of_int (t + k * msPerMinute)))"
proof -
  have "ToIntegerOrInfinity (of_int (getMinutes rt t) + of_int k) = getMinutes rt t + k"
    using ToIntegerOrInfinity_of_int [of "getMinutes rt t + k"] by simp
  then show ?thesis
    by (simp add: setMinutes_def Let_def time_fields getMinutes_def LocalTime_def UTC_def assms)
qed

section \<open>The ways a request can go\<close>

lemma cleanup_shape:
  "cleanup rt env cal slot w = (ds, w') \<Longrightarrow>
     (ds = [] \<and> \<not> (delete_availability env = ustr ''true''
                     \<and> mustString (get_prop slot (ustr ''availabilityEventId''))))
     \<or> (\<exists>r. ds = [EventsDelete (delete_request_of rt env slot) r]
            \<and> delete_availability env = ustr ''true''
            \<and> mustString (get_prop slot (ustr ''availabilityEventId'')))"
  unfolding cleanup_def Let_def
  by (auto split: if_splits prod.splits)

lemma book_slot_shape:
  assumes "fst (book_slot sep rt env cal slot customer title s e w) = (res, calls)"
  defines "Q \<equiv> FreeBusyQuery (freebusy_request_of env s e)"
    and "I \<equiv> EventsInsert (insert_request_of sep rt env customer title s e)"
  shows "(\<exists>err. calls = [Q (Inl err)] \<and> res = server_error)
       \<or> (\<exists>f. calls = [Q (Inr f)] \<and> busy_of (calendar_id env) f \<noteq> []
              \<and> res = respond 409 (ErrorBody
                        (ustr ''That slot was just booked. Please pick another time.'')))
       \<or> (\<exists>f err. calls = [Q (Inr f), I (Inl err)] \<and> busy_of (calendar_id env) f = []
              \<and> res = server_error)
       \<or> (\<exists>f c ds. calls = Q (Inr f) # I (Inr c) # ds \<and> busy_of (calendar_id env) f = []
              \<and> res = respond 200
                   (BookedBody (or_null (Option.bind (Option.bind c data) event_id))
                      (or_null (Option.bind (Option.bind c data) event_htmlLink)))
              \<and> (ds = [] \<and> \<not> (delete_availability env = ustr ''true''
                           \<and> mustString (get_prop slot (ustr ''availabilityEventId'')))
                 \<or> (\<exists>r. ds = [EventsDelete (delete_request_of rt env slot) r]
                        \<and> delete_availability env = ustr ''true''
                        \<and> mustString (get_prop slot (ustr ''availabilityEventId'')))))"
proof -
  obtain fb w1 where q: "freebusy_query cal (freebusy_request_of env s e) w = (fb, w1)"
    by (cases "freebusy_query cal (freebusy_request_of env s e) w") 
  show ?thesis
  proof (cases fb)
    case (Inl err)
    with assms q show ?thesis by (auto simp: book_slot_def)
  next
    case (Inr f)
    show ?thesis
    proof (cases "busy_of (calendar_id env) f = []")
      case False
      with assms q Inr show ?thesis by (auto simp: book_slot_def)
    next
      case True
      obtain cr w2 where i: "events_insert cal (insert_request_of sep rt env customer title s e) w1 = (cr, w2)"
        by (cases "events_insert cal (insert_request_of sep rt env customer title s e) w1")
      show ?thesis
      proof (cases cr)
        case (Inl err)
        with assms q Inr True i show ?thesis by (auto simp: book_slot_def)
      next
        case c: (Inr c)
        obtain ds w3 where d: "cleanup rt env cal slot w2 = (ds, w3)"
          by (cases "cleanup rt env cal slot w2")
        from cleanup_shape [OF d] assms q Inr True i c d show ?thesis
          by (auto simp: book_slot_def)
      qed
    qed
  qed
qed

lemma book_slot_query_answer:
  assumes "fst (book_slot sep rt env cal slot customer title s e w) = (res, calls)"
    and "FreeBusyQuery q fb \<in> set calls"
  shows "fst (freebusy_query cal q w) = fb"
  using assms unfolding book_slot_def Let_def
  by (auto split: prod.splits sum.splits if_splits dest!: cleanup_shape)


lemma booking_shape:
  assumes "fst (booking sep rt env cal b w) = (res, calls)" and "calls \<noteq> []"
  shows "\<exists>s e. toIsoOrNull rt (get_prop (slot_of b) (ustr ''startIso'')) = Some s
           \<and> mustString (get_prop (customer_of b) (ustr ''name''))
           \<and> mustString (get_prop (customer_of b) (ustr ''phone''))
           \<and> isEmail (get_prop (customer_of b) (ustr ''email''))
           \<and> fst (book_slot sep rt env cal (slot_of b) (customer_of b) (title_of rt (slot_of b))
                     s e w) = (res, calls)"
  using assms unfolding booking_def Let_def
  by (auto split: option.splits sum.splits if_splits)

lemma handler_cases:
  assumes "fst (handler rt env cal req w) = (res, calls)"
  shows "calls = [] \<or> fst (booking handler_separator rt env cal (body req) w) = (res, calls)"
  using assms unfolding handler_def by (auto split: if_splits)

lemma handler_post:
  assumes "req_method req = ustr ''POST''"
    and "\<not> missing (GOOGLE_CLIENT_ID env)" and "\<not> missing (GOOGLE_CLIENT_SECRET env)"
    and "\<not> missing (GOOGLE_REDIRECT_URI env)" and "\<not> missing (GOOGLE_REFRESH_TOKEN env)"
  shows "handler rt env cal req w = booking handler_separator rt env cal (body req) w"
  using assms unfolding handler_def by (simp add: ustr_def)

lemma either_reaches_slot:
  assumes "fst (api_book rt env cal b w) = (res, calls)
           \<or> fst (handler rt env cal req w) = (res, calls) \<and> body req = b"
    and "calls \<noteq> []"
  shows "\<exists>sep s e. mustString (get_prop (customer_of b) (ustr ''name''))
           \<and> mustString (get_prop (customer_of b) (ustr ''phone''))
           \<and> isEmail (get_prop (customer_of b) (ustr ''email''))
           \<and> (sep = server_separator \<and> fst (api_book rt env cal b w) = (res, calls)
               \<or> sep = handler_separator \<and> fst (handler rt env cal req w) = (res, calls))
           \<and> fst (book_slot sep rt env cal (slot_of b) (customer_of b) (title_of rt (slot_of b))
                     s e w) = (res, calls)"
proof -
  from assms(1) show ?thesis
  proof
    assume a: "fst (api_book rt env cal b w) = (res, calls)"
    then have "fst (booking server_separator rt env cal b w) = (res, calls)"
      by (simp add: api_book_def)
    from booking_shape [OF this assms(2)] a show ?thesis by blast
  next
    assume h: "fst (handler rt env cal req w) = (res, calls) \<and> body req = b"
    with handler_cases [of rt env cal req w res calls] assms(2)
    have "fst (booking handler_separator rt env cal b w) = (res, calls)" by auto
    from booking_shape [OF this assms(2)] h show ?thesis by blast
  qed
qed

lemma slot_guard:
  assumes "fst (book_slot sep rt env cal slot customer title s e w) = (res, calls)"
  shows "(\<forall>q fb. FreeBusyQuery q (Inr fb) \<in> set calls \<and> busy_of (calendar_id env) fb \<noteq> [] \<longrightarrow>
            res = respond 409 (ErrorBody (ustr ''That slot was just booked. Please pick another time.''))
            \<and> (\<forall>i r. EventsInsert i r \<notin> set calls))
       \<and> (\<forall>pre i r post. calls = pre @ EventsInsert i r # post \<longrightarrow>
            (\<exists>q fb. pre = [FreeBusyQuery q (Inr fb)] \<and> fst (freebusy_query cal q w) = Inr fb
                \<and> busy_of (calendar_id env) fb = []))"
proof -
  have ans: "\<And>q fb. FreeBusyQuery q fb \<in> set calls \<Longrightarrow> fst (freebusy_query cal q w) = fb"
    using book_slot_query_answer [OF assms] by blast
  from book_slot_shape [OF assms] show ?thesis
    by (elim disjE exE conjE) (auto simp: Cons_eq_append_conv intro: ans)
qed

section \<open>The examples, evaluated\<close>

lemma payload_parts [simp]:
  "slot_of (booking_payload sl cu) = JObj sl"
  "customer_of (booking_payload sl cu) = JObj cu"
  by (simp_all add: slot_of_def customer_of_def booking_payload_def or_empty_object_def)

lemma fake_calendar_calls [simp]:
  "freebusy_query (fake_calendar bs ev del) q w = (Inr (freebusy_answer bs), w)"
  "events_insert (fake_calendar bs ev del) i w = (Inr (Some \<lparr>data = Some ev\<rparr>), Suc w)"
  "events_delete (fake_calendar bs ev del) d w = (del, w)"
  by (simp_all add: fake_calendar_def)

lemma busy_of_answer [simp]: "busy_of (ustr ''primary'') (freebusy_answer bs) = bs"
  by (simp add: busy_of_def freebusy_answer_def)

lemma sample_config [simp]:
  "calendar_id sample_env = ustr ''primary''"
  "calendar_id cleanup_env = ustr ''primary''"
  "delete_availability sample_env = ustr ''false''"
  "delete_availability cleanup_env = ustr ''true''"
  "DELETE_AVAILABILITY sample_env = None"
  by (simp_all add: calendar_id_def delete_availability_def with_default_def sample_env_def
        cleanup_env_def)

lemma sample_credentials [simp]:
  "\<not> missing (GOOGLE_CLIENT_ID sample_env)" "\<not> missing (GOOGLE_CLIENT_SECRET sample_env)"
  "\<not> missing (GOOGLE_REDIRECT_URI sample_env)" "\<not> missing (GOOGLE_REFRESH_TOKEN sample_env)"
  "\<not> missing (GOOGLE_CLIENT_ID cleanup_env)" "\<not> missing (GOOGLE_CLIENT_SECRET cleanup_env)"
  "\<not> missing (GOOGLE_REDIRECT_URI cleanup_env)" "\<not> missing (GOOGLE_REFRESH_TOKEN cleanup_env)"
  by (simp_all add: missing_def sample_env_def cleanup_env_def)

lemma jane_fields [simp]:
  "mustString (JStr (ustr ''Jane''))"
  "mustString (JStr (ustr ''555-1234''))"
  "mustString (JStr (ustr ''avail1''))"
  "\<not> mustString (JStr [])"
  "\<not> mustString JUndefined"
  by (simp_all add: mustString_def trim_def is_space_def ustr_def)

lemma jane_email [simp]: "isEmail (JStr (ustr ''jane@example.com''))"
  by code_simp

lemma jane_notes [simp]:
  "mustString (JStr (ustr '' left-handed ''))"
  "trim (ustr '' left-handed '') = ustr ''left-handed''"
  by (simp_all add: mustString_def trim_def is_space_def ustr_def)

lemma sample_dates [simp]:
  "toIsoOrNull rt JUndefined = None"
  "toIsoOrNull sample_runtime (JStr (ustr ''2025-03-01T10:00:00Z'')) = Some (ISO 1740823200000)"
  "toIsoOrNull sample_runtime (JStr (ustr ''+275760-09-13T00:00:00.000Z''))
     = Some (ISO 8640000000000000)"
  by (simp_all add: toIsoOrNull_def toISOString_def date_of_string_def TimeClip_def
        ToIntegerOrInfinity_def sample_runtime_def)

lemma sample_durations [simp]:
  "duration_minutes sample_runtime sample_env = Num 60"
  "duration_minutes sample_runtime cleanup_env = Num 60"
  "duration_minutes sample_runtime vague_env = Num 60"
  "duration_minutes new_york_runtime sample_env = Num 60"
  "StringToNumber sample_runtime (booking_duration_minutes vague_env) = NaN"
  by (simp_all add: duration_minutes_def booking_duration_minutes_def with_default_def
        sample_runtime_def new_york_runtime_def sample_env_def cleanup_env_def vague_env_def)

lemma sample_zones [simp]:
  "LocalTZA_utc sample_runtime t = 0"
  "LocalTZA_local sample_runtime t = 0"
  "LocalTZA_utc new_york_runtime t = (if t < 1762063200000 then - 14400000 else - 18000000)"
  "LocalTZA_local new_york_runtime t = (if t < 1762048800000 then - 14400000 else - 18000000)"
  by (simp_all add: sample_runtime_def new_york_runtime_def)

lemmas fallback_end_eval =
  fallback_end_def setMinutes_def getMinutes_def LocalTime_def UTC_def time_fields Let_def
  toISOString_def TimeClip_def MinFromTime_def msPerMinute_def ToIntegerOrInfinity_def

lemma sample_ends [simp]:
  "fallback_end sample_runtime sample_env (ISO 1740823200000) = Inr (ISO 1740826800000)"
  "fallback_end sample_runtime cleanup_env (ISO 1740823200000) = Inr (ISO 1740826800000)"
  "fallback_end sample_runtime vague_env (ISO 1740823200000) = Inr (ISO 1740826800000)"
  "fallback_end sample_runtime sample_env (ISO 8640000000000000) = Inl RangeError"
  by (simp_all add: fallback_end_eval)

lemma new_york_end:
  "fallback_end new_york_runtime sample_env (ISO 1762061400000) = Inr (ISO 1762068600000)"
  by (simp add: fallback_end_eval)


lemma sample_requests [simp]:
  "req_method options_request = ustr ''OPTIONS''"
  "req_method get_request = ustr ''GET''"
  by (simp_all add: options_request_def get_request_def)

text \<open>
  Once the start is valid, the end is given or derived and the customer passes the check,
  the flow is the three calls; a fall-back end that cannot be written ends in the
  \<open>catch\<close>.
\<close>

lemma booking_run:
  assumes "toIsoOrNull rt (get_prop (slot_of b) (ustr ''startIso'')) = Some s"
    and "(case toIsoOrNull rt (get_prop (slot_of b) (ustr ''endIso'')) of
            None \<Rightarrow> fallback_end rt env s | Some x \<Rightarrow> Inr x) = Inr e"
    and "mustString (get_prop (customer_of b) (ustr ''name''))"
    and "mustString (get_prop (customer_of b) (ustr ''phone''))"
    and "isEmail (get_prop (customer_of b) (ustr ''email''))"
  shows "booking sep rt env cal b w
           = book_slot sep rt env cal (slot_of b) (customer_of b) (title_of rt (slot_of b)) s e w"
  using assms by (simp add: booking_def Let_def)

lemma booking_end_fails:
  assumes "toIsoOrNull rt (get_prop (slot_of b) (ustr ''startIso'')) = Some s"
    and "(case toIsoOrNull rt (get_prop (slot_of b) (ustr ''endIso'')) of
            None \<Rightarrow> fallback_end rt env s | Some x \<Rightarrow> Inr x) = Inl err"
  shows "booking sep rt env cal b w = ((server_error, []), w)"
  using assms by (simp add: booking_def Let_def)

lemma post_request [simp]: "req_method (post b) = ustr ''POST''" "body (post b) = b"
  by (simp_all add: post_def)

lemma jane_free:
  "env = sample_env \<or> env = cleanup_env \<Longrightarrow>
   booking sep sample_runtime env (fake_calendar [] ev del) jane w
     = ((respond 200 (BookedBody (or_null (event_id ev)) (or_null (event_htmlLink ev))),
         [FreeBusyQuery (jane_query env) (Inr (freebusy_answer [])),
          EventsInsert (jane_insert sep env (customer_of jane)) (Inr (Some \<lparr>data = Some ev\<rparr>))]),
        Suc w)"
  by (auto simp: booking_run [where s = "ISO 1740823200000" and e = "ISO 1740826800000"]
        jane_def jane_customer_def title_of_def book_slot_def cleanup_def jane_query_def
        jane_insert_def)

lemma jane_busy:
  "booking sep sample_runtime sample_env (fake_calendar one_busy ev del) jane w
     = ((respond 409 (ErrorBody (ustr ''That slot was just booked. Please pick another time.'')),
         [FreeBusyQuery (jane_query sample_env) (Inr (freebusy_answer one_busy))]), w)"
  by (simp add: booking_run [where s = "ISO 1740823200000" and e = "ISO 1740826800000"]
        jane_def jane_customer_def book_slot_def jane_query_def one_busy_def)

lemma jane_cleanup:
  "booking sep sample_runtime cleanup_env (fake_calendar [] ev del) jane_with_placeholder w
     = ((respond 200 (BookedBody (or_null (event_id ev)) (or_null (event_htmlLink ev))),
         [FreeBusyQuery (jane_query cleanup_env) (Inr (freebusy_answer [])),
          EventsInsert (jane_insert sep cleanup_env (customer_of jane_with_placeholder))
            (Inr (Some \<lparr>data = Some ev\<rparr>)),
          EventsDelete (delete_request_of sample_runtime cleanup_env (slot_of jane_with_placeholder))
            del]),
        Suc w)"
  by (simp add: booking_run [where s = "ISO 1740823200000" and e = "ISO 1740826800000"]
        jane_with_placeholder_def jane_customer_def title_of_def book_slot_def cleanup_def
        jane_query_def jane_insert_def)

lemma far_future_fails:
  "b = far_future \<or> b = far_future_nameless \<Longrightarrow>
   booking sep sample_runtime sample_env cal b w = ((server_error, []), w)"
  by (auto simp: booking_end_fails [where s = "ISO 8640000000000000" and err = RangeError]
        far_future_def far_future_nameless_def)

section \<open>Double booking is refused\<close>

text \<open>
  Claim C1. Whenever the free/busy query of a request has answered with at least one busy
  interval for the target calendar, the handler makes no insert and responds 409 with the
  message that the slot was just booked. An insert is made only directly after a free/busy
  query, the first call of the request, that answered with no busy interval for the
  target calendar. Both hold for the route of server.js and for the serverless handler.
\<close>

theorem conflict_guard:
  assumes "fst (api_book rt env cal b w) = (res, calls)
           \<or> fst (handler rt env cal req w) = (res, calls)"
  shows "(\<forall>q fb. FreeBusyQuery q (Inr fb) \<in> set calls \<and> busy_of (calendar_id env) fb \<noteq> [] \<longrightarrow>
            res = respond 409
                    (ErrorBody (ustr ''That slot was just booked. Please pick another time.''))
            \<and> (\<forall>i r. EventsInsert i r \<notin> set calls))
       \<and> (\<forall>pre i r post. calls = pre @ EventsInsert i r # post \<longrightarrow>
            (\<exists>q fb. pre = [FreeBusyQuery q (Inr fb)] \<and> fst (freebusy_query cal q w) = Inr fb
                \<and> busy_of (calendar_id env) fb = []))"
proof (cases "calls = []")
  case True
  then show ?thesis by simp
next
  case False
  from assms have "fst (api_book rt env cal b w) = (res, calls)
      \<or> fst (handler rt env cal req w) = (res, calls) \<and> body req = body req"
    by simp
  then have "(\<exists>sep s e. fst (book_slot sep rt env cal (slot_of b) (customer_of b)
                  (title_of rt (slot_of b)) s e w) = (res, calls))
      \<or> (\<exists>sep s e. fst (book_slot sep rt env cal (slot_of (body req)) (customer_of (body req))
                  (title_of rt (slot_of (body req))) s e w) = (res, calls))"
  proof
    assume "fst (api_book rt env cal b w) = (res, calls)"
    then show ?thesis
      using either_reaches_slot [of rt env cal b w res calls req] False by blast
  next
    assume "fst (handler rt env cal req w) = (res, calls) \<and> body req = body req"
    then show ?thesis
      using either_reaches_slot [of rt env cal "body req" w res calls req] False by blast
  qed
  then obtain sep slot customer title s e
    where "fst (book_slot sep rt env cal slot customer title s e w) = (res, calls)"
    by blast
  then show ?thesis
    by (rule slot_guard)
qed

theorem conflict_guard_witness:
  "fst (api_book sample_runtime sample_env (fake_calendar one_busy sample_event (Inr ())) jane 0)
     = (respond 409 (ErrorBody (ustr ''That slot was just booked. Please pick another time.'')),
        [FreeBusyQuery (jane_query sample_env) (Inr (freebusy_answer one_busy))])
   \<and> busy_of (calendar_id sample_env) (freebusy_answer one_busy) \<noteq> []
   \<and> fst (handler sample_runtime sample_env (fake_calendar [] sample_event (Inr ())) (post jane) 0)
     = (respond 200 (BookedBody (Some (ustr ''evt1''))
                       (Some (ustr ''https://calendar.example/evt1''))),
        [FreeBusyQuery (jane_query sample_env) (Inr (freebusy_answer []))]
        @ EventsInsert (jane_insert handler_separator sample_env (customer_of jane))
            (Inr (Some \<lparr>data = Some sample_event\<rparr>)) # [])
   \<and> busy_of (calendar_id sample_env) (freebusy_answer []) = []"
proof -
  have busy: "fst (api_book sample_runtime sample_env
                 (fake_calendar one_busy sample_event (Inr ())) jane 0)
     = (respond 409 (ErrorBody (ustr ''That slot was just booked. Please pick another time.'')),
        [FreeBusyQuery (jane_query sample_env) (Inr (freebusy_answer one_busy))])"
    by (simp add: api_book_def jane_busy)
  have free: "fst (handler sample_runtime sample_env (fake_calendar [] sample_event (Inr ()))
                 (post jane) 0)
     = (respond 200 (BookedBody (Some (ustr ''evt1''))
                       (Some (ustr ''https://calendar.example/evt1''))),
        [FreeBusyQuery (jane_query sample_env) (Inr (freebusy_answer []))]
        @ EventsInsert (jane_insert handler_separator sample_env (customer_of jane))
            (Inr (Some \<lparr>data = Some sample_event\<rparr>)) # [])"
    by (simp add: handler_post jane_free sample_event_def or_null_def)
  show ?thesis
    using busy free
      conflict_guard [OF disjI1 [OF busy]]
      conflict_guard [OF disjI2 [OF free]]
    by (simp add: one_busy_def)
qed

section \<open>An invalid start time\<close>

text \<open>
  Claim C2. When \<open>slot.startIso\<close> is absent or \<open>new Date\<close> of it is invalid, the
  response is 400 with the message \<open>Invalid start time.\<close>, no call is made to the
  calendar collaborator, and the outside world is left as it was. For the serverless
  handler this is the behaviour on a POST request with the four credentials configured.
\<close>

theorem invalid_start_rejected:
  assumes "get_prop (slot_of b) (ustr ''startIso'') = JUndefined
           \<or> newDate rt (get_prop (slot_of b) (ustr ''startIso'')) = None"
  shows "api_book rt env cal b w
           = ((respond 400 (ErrorBody (ustr ''Invalid start time.'')), []), w)
       \<and> (req_method req = ustr ''POST'' \<and> body req = b
            \<and> \<not> missing (GOOGLE_CLIENT_ID env) \<and> \<not> missing (GOOGLE_CLIENT_SECRET env)
            \<and> \<not> missing (GOOGLE_REDIRECT_URI env) \<and> \<not> missing (GOOGLE_REFRESH_TOKEN env)
          \<longrightarrow> handler rt env cal req w
                = ((respond 400 (ErrorBody (ustr ''Invalid start time.'')), []), w))"
proof -
  from assms have "newDate rt (get_prop (slot_of b) (ustr ''startIso'')) = None"
    by auto
  then have "booking sep rt env cal b w
      = ((respond 400 (ErrorBody (ustr ''Invalid start time.'')), []), w)" for sep
    by (simp add: booking_def toIsoOrNull_def Let_def)
  then show ?thesis
    by (auto simp: api_book_def handler_post)
qed

theorem invalid_start_rejected_witness:
  "get_prop (slot_of no_start) (ustr ''startIso'') = JUndefined
   \<and> api_book sample_runtime sample_env (fake_calendar [] sample_event (Inr ())) no_start 0
       = ((respond 400 (ErrorBody (ustr ''Invalid start time.'')), []), 0)
   \<and> handler sample_runtime sample_env (fake_calendar [] sample_event (Inr ())) (post no_start) 0
       = ((respond 400 (ErrorBody (ustr ''Invalid start time.'')), []), 0)"
proof -
  have absent: "get_prop (slot_of no_start) (ustr ''startIso'') = JUndefined"
    by (simp add: no_start_def)
  show ?thesis
    using absent
      invalid_start_rejected [OF disjI1 [OF absent], of sample_runtime sample_env
        "fake_calendar [] sample_event (Inr ())" 0 "post no_start"]
    by simp
qed

section \<open>Methods of the serverless handler\<close>

text \<open>
  Claim C10. The serverless handler answers an OPTIONS request with 204 and no body, and
  a request that is neither OPTIONS nor POST with 405 and the message
  \<open>Method not allowed\<close>; in both cases whatever the payload and the configuration are,
  and without a call to the calendar collaborator.
\<close>

theorem handler_method_gate:
  "(req_method req = ustr ''OPTIONS'' \<longrightarrow> handler rt env cal req w = ((respond 204 NoBody, []), w))
   \<and> (req_method req \<noteq> ustr ''OPTIONS'' \<and> req_method req \<noteq> ustr ''POST'' \<longrightarrow>
        handler rt env cal req w
          = ((respond 405 (ErrorBody (ustr ''Method not allowed'')), []), w))"
  by (simp add: handler_def)

theorem handler_method_gate_witness:
  "req_method options_request = ustr ''OPTIONS''
   \<and> handler sample_runtime sample_env (fake_calendar [] sample_event (Inr ())) options_request 0
       = ((respond 204 NoBody, []), 0)
   \<and> req_method get_request \<noteq> ustr ''OPTIONS'' \<and> req_method get_request \<noteq> ustr ''POST''
   \<and> handler sample_runtime sample_env (fake_calendar [] sample_event (Inr ())) get_request 0
       = ((respond 405 (ErrorBody (ustr ''Method not allowed'')), []), 0)"
  using handler_method_gate [of options_request sample_runtime sample_env
          "fake_calendar [] sample_event (Inr ())" 0]
        handler_method_gate [of get_request sample_runtime sample_env
          "fake_calendar [] sample_event (Inr ())" 0]
  by (simp add: options_request_def get_request_def)


section \<open>The optional delete of the availability event\<close>

lemma default_flag_disabled:
  "DELETE_AVAILABILITY env = None \<Longrightarrow> delete_availability env \<noteq> ustr ''true''"
  by (simp add: delete_availability_def with_default_def)

lemma shape_cleanup:
  assumes "fst (book_slot sep rt env cal slot customer title s e w) = (res, calls)"
    and "EventsDelete d r \<in> set calls"
  shows "(\<exists>q fb i c. calls = [FreeBusyQuery q fb, EventsInsert i (Inr c), EventsDelete d r])
       \<and> delete_availability env = ustr ''true''
       \<and> mustString (get_prop slot (ustr ''availabilityEventId''))"
  using book_slot_shape [OF assms(1)] assms(2)
  by (elim disjE exE conjE) auto

lemma shape_inserted:
  assumes "fst (book_slot sep rt env cal slot customer title s e w) = (res, calls)"
    and "EventsInsert i (Inr c) \<in> set calls"
  shows "res = respond 200
           (BookedBody (or_null (Option.bind (Option.bind c data) event_id))
              (or_null (Option.bind (Option.bind c data) event_htmlLink)))"
  using book_slot_shape [OF assms(1)] assms(2)
  by (elim disjE exE conjE) auto

lemma shape_insert_request:
  assumes "fst (book_slot sep rt env cal slot customer title s e w) = (res, calls)"
    and "EventsInsert i r \<in> set calls"
  shows "i = insert_request_of sep rt env customer title s e"
  using book_slot_shape [OF assms(1)] assms(2)
  by (elim disjE exE conjE) auto

lemma book_slot_response:
  "fst (fst (book_slot sep rt env cal slot customer title s e w))
     = (case freebusy_query cal (freebusy_request_of env s e) w of
          (Inl err, w1) \<Rightarrow> server_error
        | (Inr f, w1) \<Rightarrow>
            if busy_of (calendar_id env) f \<noteq> []
            then respond 409
                   (ErrorBody (ustr ''That slot was just booked. Please pick another time.''))
            else (case events_insert cal
                         (insert_request_of sep rt env customer title s e) w1 of
                    (Inl err, w2) \<Rightarrow> server_error
                  | (Inr c, w2) \<Rightarrow>
                      respond 200
                        (BookedBody (or_null (Option.bind (Option.bind c data) event_id))
                           (or_null (Option.bind (Option.bind c data) event_htmlLink)))))"
proof -
  obtain fb w1 where q: "freebusy_query cal (freebusy_request_of env s e) w = (fb, w1)"
    by (cases "freebusy_query cal (freebusy_request_of env s e) w")
  obtain cr w2 where i: "events_insert cal (insert_request_of sep rt env customer title s e) w1
      = (cr, w2)"
    by (cases "events_insert cal (insert_request_of sep rt env customer title s e) w1")
  obtain ds w3 where d: "cleanup rt env cal slot w2 = (ds, w3)"
    by (cases "cleanup rt env cal slot w2")
  show ?thesis
    by (cases fb; cases cr) (simp_all add: book_slot_def q i d)
qed

lemma booking_response_without_delete:
  assumes "freebusy_query cal' = freebusy_query cal" and "events_insert cal' = events_insert cal"
  shows "fst (fst (booking sep rt env cal' b w)) = fst (fst (booking sep rt env cal b w))"
proof -
  have "fst (fst (book_slot sep rt env cal' slot customer title s e w))
           = fst (fst (book_slot sep rt env cal slot customer title s e w))"
    for slot customer title s e
    by (simp only: book_slot_response assms)
  then show ?thesis
    unfolding booking_def Let_def
    by (simp split: option.splits sum.splits)
qed

text \<open>
  Claim C5. A delete is made only as the third call of a request, after a free/busy query
  and an insert that returned, and only when the flag \<open>DELETE_AVAILABILITY\<close> is
  \<open>true\<close> and \<open>slot.availabilityEventId\<close> is a string that is not empty after
  trimming. With the flag unset (the default) or different from \<open>true\<close> no delete is
  made, whatever the identifier. The response does not depend on what the delete does: two
  collaborators that agree on the free/busy query and on the insert get the same response,
  and after an insert that returned the status is 200.
\<close>

theorem cleanup_best_effort:
  assumes "fst (api_book rt env cal b w) = (res, calls)
           \<or> fst (handler rt env cal req w) = (res, calls) \<and> body req = b"
  shows "(\<forall>d r. EventsDelete d r \<in> set calls \<longrightarrow>
            (\<exists>q fb i c. calls = [FreeBusyQuery q fb, EventsInsert i (Inr c), EventsDelete d r])
            \<and> delete_availability env = ustr ''true''
            \<and> (\<exists>x. get_prop (slot_of b) (ustr ''availabilityEventId'') = JStr x \<and> trim x \<noteq> []))
       \<and> (DELETE_AVAILABILITY env = None \<or> delete_availability env \<noteq> ustr ''true''
            \<longrightarrow> (\<forall>d r. EventsDelete d r \<notin> set calls))
       \<and> (\<forall>cal'. freebusy_query cal' = freebusy_query cal \<and> events_insert cal' = events_insert cal
            \<longrightarrow> fst (fst (api_book rt env cal' b w)) = fst (fst (api_book rt env cal b w))
              \<and> fst (fst (handler rt env cal' req w)) = fst (fst (handler rt env cal req w)))
       \<and> (\<forall>i c. EventsInsert i (Inr c) \<in> set calls \<longrightarrow> status res = 200)"
proof -
  have slot: "calls \<noteq> [] \<Longrightarrow> \<exists>sep s e. fst (book_slot sep rt env cal (slot_of b) (customer_of b)
                     (title_of rt (slot_of b)) s e w) = (res, calls)"
    using either_reaches_slot [OF assms] by blast
  have del: "\<forall>d r. EventsDelete d r \<in> set calls \<longrightarrow>
            (\<exists>q fb i c. calls = [FreeBusyQuery q fb, EventsInsert i (Inr c), EventsDelete d r])
            \<and> delete_availability env = ustr ''true''
            \<and> (\<exists>x. get_prop (slot_of b) (ustr ''availabilityEventId'') = JStr x \<and> trim x \<noteq> [])"
  proof (intro allI impI)
    fix d r
    assume d: "EventsDelete d r \<in> set calls"
    then have "calls \<noteq> []" by auto
    with slot obtain sep s e where "fst (book_slot sep rt env cal (slot_of b) (customer_of b)
                     (title_of rt (slot_of b)) s e w) = (res, calls)"
      by blast
    from shape_cleanup [OF this d]
    show "(\<exists>q fb i c. calls = [FreeBusyQuery q fb, EventsInsert i (Inr c), EventsDelete d r])
            \<and> delete_availability env = ustr ''true''
            \<and> (\<exists>x. get_prop (slot_of b) (ustr ''availabilityEventId'') = JStr x \<and> trim x \<noteq> [])"
      by (simp add: mustString_iff)
  qed
  have off: "DELETE_AVAILABILITY env = None \<or> delete_availability env \<noteq> ustr ''true''
            \<longrightarrow> (\<forall>d r. EventsDelete d r \<notin> set calls)"
  proof (intro impI allI notI)
    fix d r
    assume "DELETE_AVAILABILITY env = None \<or> delete_availability env \<noteq> ustr ''true''"
    then have "delete_availability env \<noteq> ustr ''true''"
      using default_flag_disabled [of env] by auto
    moreover assume "EventsDelete d r \<in> set calls"
    with del have "delete_availability env = ustr ''true''" by simp
    ultimately show False by simp
  qed
  have same: "\<forall>cal'. freebusy_query cal' = freebusy_query cal \<and> events_insert cal' = events_insert cal
            \<longrightarrow> fst (fst (api_book rt env cal' b w)) = fst (fst (api_book rt env cal b w))
              \<and> fst (fst (handler rt env cal' req w)) = fst (fst (handler rt env cal req w))"
  proof (intro allI impI, elim conjE)
    fix cal' :: "'a calendar_api"
    assume q: "freebusy_query cal' = freebusy_query cal"
      and i: "events_insert cal' = events_insert cal"
    show "fst (fst (api_book rt env cal' b w)) = fst (fst (api_book rt env cal b w))
        \<and> fst (fst (handler rt env cal' req w)) = fst (fst (handler rt env cal req w))"
      by (simp add: api_book_def handler_def booking_response_without_delete [OF q i])
  qed
  have ok: "\<forall>i c. EventsInsert i (Inr c) \<in> set calls \<longrightarrow> status res = 200"
  proof (intro allI impI)
    fix i c
    assume i: "EventsInsert i (Inr c) \<in> set calls"
    then have "calls \<noteq> []" by auto
    with slot obtain sep s e where "fst (book_slot sep rt env cal (slot_of b) (customer_of b)
                     (title_of rt (slot_of b)) s e w) = (res, calls)"
      by blast
    from shape_inserted [OF this i] show "status res = 200"
      by (simp add: respond_def)
  qed
  show ?thesis
    by (rule conjI [OF del conjI [OF off conjI [OF same ok]]])
qed

theorem cleanup_best_effort_witness:
  "fst (handler sample_runtime cleanup_env
          (fake_calendar [] sample_event (Inl (CollaboratorError 404)))
          (post jane_with_placeholder) 0)
     = (respond 200 (BookedBody (Some (ustr ''evt1''))
                       (Some (ustr ''https://calendar.example/evt1''))),
        [FreeBusyQuery (jane_query cleanup_env) (Inr (freebusy_answer [])),
         EventsInsert (jane_insert handler_separator cleanup_env
                         (customer_of jane_with_placeholder))
           (Inr (Some \<lparr>data = Some sample_event\<rparr>)),
         EventsDelete (delete_request_of sample_runtime cleanup_env
                         (slot_of jane_with_placeholder))
           (Inl (CollaboratorError 404))])
   \<and> body (post jane_with_placeholder) = jane_with_placeholder
   \<and> delete_availability cleanup_env = ustr ''true''
   \<and> get_prop (slot_of jane_with_placeholder) (ustr ''availabilityEventId'')
       = JStr (ustr ''avail1'')
   \<and> fst (fst (handler sample_runtime cleanup_env (fake_calendar [] sample_event (Inr ()))
                 (post jane_with_placeholder) 0))
       = respond 200 (BookedBody (Some (ustr ''evt1''))
                        (Some (ustr ''https://calendar.example/evt1'')))"
proof -
  have run: "fst (handler sample_runtime cleanup_env
          (fake_calendar [] sample_event (Inl (CollaboratorError 404)))
          (post jane_with_placeholder) 0)
     = (respond 200 (BookedBody (Some (ustr ''evt1''))
                       (Some (ustr ''https://calendar.example/evt1''))),
        [FreeBusyQuery (jane_query cleanup_env) (Inr (freebusy_answer [])),
         EventsInsert (jane_insert handler_separator cleanup_env
                         (customer_of jane_with_placeholder))
           (Inr (Some \<lparr>data = Some sample_event\<rparr>)),
         EventsDelete (delete_request_of sample_runtime cleanup_env
                         (slot_of jane_with_placeholder))
           (Inl (CollaboratorError 404))])
      \<and> body (post jane_with_placeholder) = jane_with_placeholder"
    by (simp add: handler_post jane_cleanup sample_event_def or_null_def)
  note at_run = cleanup_best_effort [OF disjI2 [OF run]]
  have same: "fst (fst (handler sample_runtime cleanup_env
                 (fake_calendar [] sample_event (Inr ())) (post jane_with_placeholder) 0))
       = fst (fst (handler sample_runtime cleanup_env
                 (fake_calendar [] sample_event (Inl (CollaboratorError 404)))
                 (post jane_with_placeholder) 0))"
    using at_run [THEN conjunct2, THEN conjunct2, THEN conjunct1, rule_format,
        of "fake_calendar [] sample_event (Inr ())"]
    by (simp add: fake_calendar_def)
  have placeholder: "get_prop (slot_of jane_with_placeholder) (ustr ''availabilityEventId'')
       = JStr (ustr ''avail1'')"
    by (simp add: jane_with_placeholder_def)
  show ?thesis
    using run same placeholder by simp
qed


section \<open>The response after an insert\<close>

text \<open>
  Claim C6, as the specification states it, fails where the collaborator returns the
  empty string as the identifier: \<open>created?.data?.id || null\<close> answers \<open>null\<close>, not
  the empty string that was returned.
\<close>

theorem empty_id_becomes_null:
  "fst (api_book sample_runtime sample_env (fake_calendar [] unnamed_event (Inr ())) jane 0)
     = (respond 200 (BookedBody None (Some (ustr ''https://calendar.example/evt1''))),
        [FreeBusyQuery (jane_query sample_env) (Inr (freebusy_answer [])),
         EventsInsert (jane_insert server_separator sample_env (customer_of jane))
           (Inr (Some \<lparr>data = Some unnamed_event\<rparr>))])
   \<and> event_id unnamed_event = Some []
   \<and> eventId (json (fst (fst (api_book sample_runtime sample_env
                                  (fake_calendar [] unnamed_event (Inr ())) jane 0))))
       \<noteq> event_id unnamed_event"
  by (simp add: api_book_def jane_free unnamed_event_def or_null_def respond_def)

text \<open>
  Claim C6, amended. After an insert that returned, the response is 200 and carries as
  \<open>eventId\<close> and \<open>htmlLink\<close> the \<open>id\<close> and \<open>htmlLink\<close> of the collaborator's
  answer whenever these are strings that are not empty, and \<open>null\<close> when one is absent,
  \<open>null\<close> or the empty string, or when the answer or its \<open>data\<close> is absent; an
  absent field does not make the handler throw.
\<close>

theorem created_event_passthrough:
  assumes "fst (api_book rt env cal b w) = (res, calls)
           \<or> fst (handler rt env cal req w) = (res, calls) \<and> body req = b"
    and "EventsInsert i (Inr created) \<in> set calls"
  shows "status res = 200
       \<and> json res = BookedBody
           (case Option.bind (Option.bind created data) event_id of
              None \<Rightarrow> None | Some x \<Rightarrow> if x = [] then None else Some x)
           (case Option.bind (Option.bind created data) event_htmlLink of
              None \<Rightarrow> None | Some x \<Rightarrow> if x = [] then None else Some x)"
proof -
  from assms(2) have "calls \<noteq> []" by auto
  with either_reaches_slot [OF assms(1)] obtain sep s e
    where "fst (book_slot sep rt env cal (slot_of b) (customer_of b)
                  (title_of rt (slot_of b)) s e w) = (res, calls)"
    by blast
  from shape_inserted [OF this assms(2)] show ?thesis
    by (simp add: respond_def or_null_def)
qed

theorem created_event_passthrough_witness:
  "fst (api_book sample_runtime sample_env (fake_calendar [] sample_event (Inr ())) jane 0)
     = (respond 200 (BookedBody (Some (ustr ''evt1''))
                       (Some (ustr ''https://calendar.example/evt1''))),
        [FreeBusyQuery (jane_query sample_env) (Inr (freebusy_answer [])),
         EventsInsert (jane_insert server_separator sample_env (customer_of jane))
           (Inr (Some \<lparr>data = Some sample_event\<rparr>))])
   \<and> event_id sample_event = Some (ustr ''evt1'')
   \<and> event_htmlLink sample_event = Some (ustr ''https://calendar.example/evt1'')
   \<and> status (respond 200 (BookedBody (Some (ustr ''evt1''))
                             (Some (ustr ''https://calendar.example/evt1'')))) = 200"
proof -
  have run: "fst (api_book sample_runtime sample_env
                    (fake_calendar [] sample_event (Inr ())) jane 0)
     = (respond 200 (BookedBody (Some (ustr ''evt1''))
                       (Some (ustr ''https://calendar.example/evt1''))),
        [FreeBusyQuery (jane_query sample_env) (Inr (freebusy_answer [])),
         EventsInsert (jane_insert server_separator sample_env (customer_of jane))
           (Inr (Some \<lparr>data = Some sample_event\<rparr>))])"
    by (simp add: api_book_def jane_free sample_event_def or_null_def)
  have made: "EventsInsert (jane_insert server_separator sample_env (customer_of jane))
           (Inr (Some \<lparr>data = Some sample_event\<rparr>))
      \<in> set [FreeBusyQuery (jane_query sample_env) (Inr (freebusy_answer [])),
         EventsInsert (jane_insert server_separator sample_env (customer_of jane))
           (Inr (Some \<lparr>data = Some sample_event\<rparr>))]"
    by simp
  show ?thesis
    using run created_event_passthrough [OF disjI1 [OF run] made]
    by (simp add: sample_event_def)
qed

section \<open>The text of the event\<close>

lemma description_of_valid_customer:
  assumes "get_prop customer (ustr ''name'') = JStr name"
    and "get_prop customer (ustr ''phone'') = JStr phone"
    and "get_prop customer (ustr ''email'') = JStr email"
  shows "description_text rt customer
           = join [0x0A]
               ([ustr ''Booked via website'', [], ustr ''Player: '' @ name,
                 ustr ''Phone: '' @ phone, ustr ''Email: '' @ email]
                @ (case get_prop customer (ustr ''notes'') of
                     JStr notes \<Rightarrow> if trim notes \<noteq> [] then [[], ustr ''Notes:'', trim notes] else []
                   | _ \<Rightarrow> []))"
  using assms
  by (cases "get_prop customer (ustr ''notes'')")
     (simp_all add: description_text_def ToString_def mustString_def Let_def)

text \<open>
  Claim C8. The description of every event that is inserted is the join, with a line feed,
  of the header line \<open>Booked via website\<close>, an empty line, \<open>Player: \<close> with the name,
  \<open>Phone: \<close> with the phone and \<open>Email: \<close> with the e-mail, the three fields being
  the strings of the payload as they are; and exactly when \<open>customer.notes\<close> is a string
  that is not empty after trimming, also an empty line, the line \<open>Notes:\<close> and the trimmed
  notes.
\<close>

theorem event_description:
  assumes "fst (api_book rt env cal b w) = (res, calls)
           \<or> fst (handler rt env cal req w) = (res, calls) \<and> body req = b"
    and "EventsInsert i r \<in> set calls"
  shows "\<exists>name phone email.
           get_prop (customer_of b) (ustr ''name'') = JStr name
         \<and> get_prop (customer_of b) (ustr ''phone'') = JStr phone
         \<and> get_prop (customer_of b) (ustr ''email'') = JStr email
         \<and> description (requestBody i)
             = join [0x0A]
                 ([ustr ''Booked via website'', [], ustr ''Player: '' @ name,
                   ustr ''Phone: '' @ phone, ustr ''Email: '' @ email]
                  @ (case get_prop (customer_of b) (ustr ''notes'') of
                       JStr notes \<Rightarrow>
                         if trim notes \<noteq> [] then [[], ustr ''Notes:'', trim notes] else []
                     | _ \<Rightarrow> []))"
proof -
  from assms(2) have "calls \<noteq> []" by auto
  with either_reaches_slot [OF assms(1)] obtain sep s e
    where valid: "mustString (get_prop (customer_of b) (ustr ''name''))"
      "mustString (get_prop (customer_of b) (ustr ''phone''))"
      "isEmail (get_prop (customer_of b) (ustr ''email''))"
    and slot: "fst (book_slot sep rt env cal (slot_of b) (customer_of b)
                  (title_of rt (slot_of b)) s e w) = (res, calls)"
    by blast
  from valid obtain name phone email
    where fields: "get_prop (customer_of b) (ustr ''name'') = JStr name"
      "get_prop (customer_of b) (ustr ''phone'') = JStr phone"
      "get_prop (customer_of b) (ustr ''email'') = JStr email"
    unfolding mustString_iff isEmail_iff by blast
  from shape_insert_request [OF slot assms(2)]
  have "description (requestBody i) = description_text rt (customer_of b)"
    by (simp add: insert_request_of_def)
  with description_of_valid_customer [OF fields] fields show ?thesis
    by simp
qed

theorem event_description_witness:
  "fst (handler sample_runtime cleanup_env (fake_calendar [] sample_event (Inr ()))
          (post jane_with_placeholder) 0)
     = (respond 200 (BookedBody (Some (ustr ''evt1''))
                       (Some (ustr ''https://calendar.example/evt1''))),
        [FreeBusyQuery (jane_query cleanup_env) (Inr (freebusy_answer [])),
         EventsInsert (jane_insert handler_separator cleanup_env
                         (customer_of jane_with_placeholder))
           (Inr (Some \<lparr>data = Some sample_event\<rparr>)),
         EventsDelete (delete_request_of sample_runtime cleanup_env
                         (slot_of jane_with_placeholder))
           (Inr ())])
   \<and> body (post jane_with_placeholder) = jane_with_placeholder
   \<and> description (requestBody (jane_insert handler_separator cleanup_env
                                   (customer_of jane_with_placeholder)))
       = join [0x0A]
           [ustr ''Booked via website'', [], ustr ''Player: '' @ ustr ''Jane'',
            ustr ''Phone: '' @ ustr ''555-1234'', ustr ''Email: '' @ ustr ''jane@example.com'',
            [], ustr ''Notes:'', ustr ''left-handed'']"
proof -
  have run: "fst (handler sample_runtime cleanup_env (fake_calendar [] sample_event (Inr ()))
          (post jane_with_placeholder) 0)
     = (respond 200 (BookedBody (Some (ustr ''evt1''))
                       (Some (ustr ''https://calendar.example/evt1''))),
        [FreeBusyQuery (jane_query cleanup_env) (Inr (freebusy_answer [])),
         EventsInsert (jane_insert handler_separator cleanup_env
                         (customer_of jane_with_placeholder))
           (Inr (Some \<lparr>data = Some sample_event\<rparr>)),
         EventsDelete (delete_request_of sample_runtime cleanup_env
                         (slot_of jane_with_placeholder))
           (Inr ())])
      \<and> body (post jane_with_placeholder) = jane_with_placeholder"
    by (simp add: handler_post jane_cleanup sample_event_def or_null_def)
  have made: "EventsInsert (jane_insert handler_separator cleanup_env
                         (customer_of jane_with_placeholder))
           (Inr (Some \<lparr>data = Some sample_event\<rparr>))
      \<in> set [FreeBusyQuery (jane_query cleanup_env) (Inr (freebusy_answer [])),
         EventsInsert (jane_insert handler_separator cleanup_env
                         (customer_of jane_with_placeholder))
           (Inr (Some \<lparr>data = Some sample_event\<rparr>)),
         EventsDelete (delete_request_of sample_runtime cleanup_env
                         (slot_of jane_with_placeholder))
           (Inr ())]"
    by simp
  show ?thesis
    using run event_description [OF disjI2 [OF run] made]
    by (auto simp: jane_with_placeholder_def jane_customer_def)
qed

section \<open>The configured duration\<close>

lemma TimeClip_of_int:
  assumes "\<bar>x\<bar> \<le> 8640000000000000"
  shows "TimeClip (Num (of_int x)) = Some x"
proof -
  from assms have "\<not> \<bar>real_of_int x\<bar> > 8640000000000000"
    by linarith
  then show ?thesis
    by (simp only: TimeClip_def number.case if_False ToIntegerOrInfinity_of_int)
qed

lemma fallback_end_fixed_zone:
  assumes "\<And>u. LocalTZA_utc rt u = z" and "\<And>u. LocalTZA_local rt u = z"
    and "duration_minutes rt env = Num (of_int k)"
    and "\<bar>t + k * msPerMinute\<bar> \<le> 8640000000000000"
  shows "fallback_end rt env (ISO t) = Inr (ISO (t + k * msPerMinute))"
  using setMinutes_fixed_zone [of rt z t k, OF assms(1,2)] TimeClip_of_int [OF assms(4)]
  by (simp add: fallback_end_def assms(3) toISOString_def)

text \<open>
  Claim C9. When \<open>Number(BOOKING_DURATION_MINUTES)\<close> is NaN or zero, the fall-back end
  is computed with 60 minutes: it is \<open>setMinutes(getMinutes() + 60)\<close> of the start, which
  on a server in a zone of constant offset is the start plus 60 minutes whenever that is a
  time value. Every other number is used as it is.
\<close>

theorem duration_fallback:
  "(StringToNumber rt (booking_duration_minutes env) = NaN
      \<or> StringToNumber rt (booking_duration_minutes env) = Num 0
    \<longrightarrow> duration_minutes rt env = Num 60
      \<and> fallback_end rt env (ISO t)
          = toISOString (setMinutes rt t (num_add (Num (of_int (getMinutes rt t))) (Num 60)))
      \<and> ((\<forall>u. LocalTZA_utc rt u = z \<and> LocalTZA_local rt u = z)
            \<and> \<bar>t + 60 * msPerMinute\<bar> \<le> 8640000000000000
          \<longrightarrow> fallback_end rt env (ISO t) = Inr (ISO (t + 60 * msPerMinute))))
   \<and> (StringToNumber rt (booking_duration_minutes env) \<noteq> NaN
      \<and> StringToNumber rt (booking_duration_minutes env) \<noteq> Num 0
    \<longrightarrow> duration_minutes rt env = StringToNumber rt (booking_duration_minutes env)
      \<and> fallback_end rt env (ISO t)
          = toISOString (setMinutes rt t (num_add (Num (of_int (getMinutes rt t)))
               (StringToNumber rt (booking_duration_minutes env)))))"
proof (intro conjI impI)
  assume a: "StringToNumber rt (booking_duration_minutes env) = NaN
      \<or> StringToNumber rt (booking_duration_minutes env) = Num 0"
  then show d: "duration_minutes rt env = Num 60"
    by (auto simp: duration_minutes_def)
  then show "fallback_end rt env (ISO t)
          = toISOString (setMinutes rt t (num_add (Num (of_int (getMinutes rt t))) (Num 60)))"
    by (simp add: fallback_end_def)
  assume z: "(\<forall>u. LocalTZA_utc rt u = z \<and> LocalTZA_local rt u = z)
            \<and> \<bar>t + 60 * msPerMinute\<bar> \<le> 8640000000000000"
  from d have "duration_minutes rt env = Num (of_int 60)" by simp
  from fallback_end_fixed_zone [of rt z env 60 t, OF _ _ this] z
  show "fallback_end rt env (ISO t) = Inr (ISO (t + 60 * msPerMinute))"
    by simp
next
  assume "StringToNumber rt (booking_duration_minutes env) \<noteq> NaN
      \<and> StringToNumber rt (booking_duration_minutes env) \<noteq> Num 0"
  then show d: "duration_minutes rt env = StringToNumber rt (booking_duration_minutes env)"
    by (simp add: duration_minutes_def Let_def)
  then show "fallback_end rt env (ISO t)
          = toISOString (setMinutes rt t (num_add (Num (of_int (getMinutes rt t)))
               (StringToNumber rt (booking_duration_minutes env))))"
    by (simp add: fallback_end_def)
qed

lemma long_duration [simp]:
  "StringToNumber sample_runtime (booking_duration_minutes long_env) = Num (181 / 2)"
  "duration_minutes sample_runtime long_env = Num (181 / 2)"
  by (simp_all add: duration_minutes_def booking_duration_minutes_def with_default_def
        long_env_def sample_env_def sample_runtime_def)

theorem duration_fallback_witness:
  "StringToNumber sample_runtime (booking_duration_minutes vague_env) = NaN
   \<and> duration_minutes sample_runtime vague_env = Num 60
   \<and> LocalTZA_utc sample_runtime 0 = 0 \<and> LocalTZA_local sample_runtime 0 = 0
   \<and> \<bar>1740823200000 + 60 * msPerMinute\<bar> \<le> 8640000000000000
   \<and> fallback_end sample_runtime vague_env (ISO 1740823200000)
       = Inr (ISO (1740823200000 + 60 * msPerMinute))
   \<and> StringToNumber sample_runtime (booking_duration_minutes long_env) = Num (181 / 2)
   \<and> duration_minutes sample_runtime long_env = Num (181 / 2)"
  using duration_fallback [of sample_runtime vague_env 1740823200000 0]
    duration_fallback [of sample_runtime long_env 1740823200000 0]
  by (simp add: msPerMinute_def)

lemma fractional_duration_truncated:
  "fallback_end sample_runtime long_env (ISO 1740823200000)
     = Inr (ISO (1740823200000 + 90 * msPerMinute))"
  by (simp add: fallback_end_eval)


section \<open>The summary of the event\<close>

lemma event_summary:
  assumes "fst (api_book rt env cal b w) = (res, calls)
           \<or> fst (handler rt env cal req w) = (res, calls) \<and> body req = b"
    and "EventsInsert i r \<in> set calls"
  shows "\<exists>name sep.
           get_prop (customer_of b) (ustr ''name'') = JStr name
         \<and> (sep = server_separator \<and> fst (api_book rt env cal b w) = (res, calls)
             \<or> sep = handler_separator \<and> fst (handler rt env cal req w) = (res, calls))
         \<and> summary (requestBody i)
             = ustr ''BOOKED: ''
               @ (case get_prop (slot_of b) (ustr ''title'') of
                    JStr title \<Rightarrow> if trim title \<noteq> [] then trim title else ustr ''Training Session''
                  | _ \<Rightarrow> ustr ''Training Session'')
               @ sep @ name"
proof -
  from assms(2) have "calls \<noteq> []" by auto
  with either_reaches_slot [OF assms(1)] obtain sep s e
    where valid: "mustString (get_prop (customer_of b) (ustr ''name''))"
    and sep: "sep = server_separator \<and> fst (api_book rt env cal b w) = (res, calls)
             \<or> sep = handler_separator \<and> fst (handler rt env cal req w) = (res, calls)"
    and slot: "fst (book_slot sep rt env cal (slot_of b) (customer_of b)
                  (title_of rt (slot_of b)) s e w) = (res, calls)"
    by blast
  from valid obtain name where name: "get_prop (customer_of b) (ustr ''name'') = JStr name"
    unfolding mustString_iff by blast
  have title: "title_of rt (slot_of b)
      = (case get_prop (slot_of b) (ustr ''title'') of
           JStr title \<Rightarrow> if trim title \<noteq> [] then trim title else ustr ''Training Session''
         | _ \<Rightarrow> ustr ''Training Session'')"
    by (cases "get_prop (slot_of b) (ustr ''title'')")
       (simp_all add: title_of_def mustString_def ToString_def)
  from shape_insert_request [OF slot assms(2)]
  have "summary (requestBody i)
      = ustr ''BOOKED: '' @ title_of rt (slot_of b) @ sep @ name"
    by (simp add: insert_request_of_def name ToString_def)
  with name sep title show ?thesis
    by auto
qed

text \<open>In the serverless handler the separator is the em dash between two spaces.\<close>

lemma handler_summary:
  assumes "fst (handler rt env cal req w) = (res, calls)"
    and "EventsInsert i r \<in> set calls"
  shows "\<exists>name.
           get_prop (customer_of (body req)) (ustr ''name'') = JStr name
         \<and> summary (requestBody i)
             = ustr ''BOOKED: ''
               @ (case get_prop (slot_of (body req)) (ustr ''title'') of
                    JStr title \<Rightarrow> if trim title \<noteq> [] then trim title else ustr ''Training Session''
                  | _ \<Rightarrow> ustr ''Training Session'')
               @ [0x20, 0x2014, 0x20] @ name"
proof -
  from assms(2) have ne: "calls \<noteq> []" by auto
  with handler_cases [OF assms(1)]
  have "fst (booking handler_separator rt env cal (body req) w) = (res, calls)"
    by simp
  from booking_shape [OF this ne] obtain s e
    where valid: "mustString (get_prop (customer_of (body req)) (ustr ''name''))"
    and slot: "fst (book_slot handler_separator rt env cal (slot_of (body req))
                  (customer_of (body req)) (title_of rt (slot_of (body req))) s e w) = (res, calls)"
    by blast
  from valid obtain name
    where name: "get_prop (customer_of (body req)) (ustr ''name'') = JStr name"
    unfolding mustString_iff by blast
  have title: "title_of rt (slot_of (body req))
      = (case get_prop (slot_of (body req)) (ustr ''title'') of
           JStr title \<Rightarrow> if trim title \<noteq> [] then trim title else ustr ''Training Session''
         | _ \<Rightarrow> ustr ''Training Session'')"
    by (cases "get_prop (slot_of (body req)) (ustr ''title'')")
       (simp_all add: title_of_def mustString_def ToString_def)
  from shape_insert_request [OF slot assms(2)]
  have "summary (requestBody i)
      = ustr ''BOOKED: '' @ title_of rt (slot_of (body req)) @ [0x20, 0x2014, 0x20] @ name"
    by (simp add: insert_request_of_def name ToString_def handler_separator_def)
  with name title show ?thesis
    by auto
qed

text \<open>
  Claim C7 fails for the route of server.js: the separator its template literal holds is
  not the em dash U+2014 but the three code units U+00E2, U+20AC, U+201D. For the
  request of the specification's own scenario the summary of the inserted event is
  therefore not \<open>BOOKED: Training Session\<close>, em dash, \<open>Jane\<close>. The serverless handler
  writes the em dash (\<open>handler_summary\<close>).
\<close>

theorem server_summary_separator:
  "fst (api_book sample_runtime sample_env (fake_calendar [] sample_event (Inr ())) jane 0)
     = (respond 200 (BookedBody (Some (ustr ''evt1''))
                       (Some (ustr ''https://calendar.example/evt1''))),
        [FreeBusyQuery (jane_query sample_env) (Inr (freebusy_answer [])),
         EventsInsert (jane_insert server_separator sample_env (customer_of jane))
           (Inr (Some \<lparr>data = Some sample_event\<rparr>))])
   \<and> summary (requestBody (jane_insert server_separator sample_env (customer_of jane)))
       = ustr ''BOOKED: '' @ ustr ''Training Session'' @ [0x20, 0xE2, 0x20AC, 0x201D, 0x20]
         @ ustr ''Jane''
   \<and> summary (requestBody (jane_insert server_separator sample_env (customer_of jane)))
       \<noteq> ustr ''BOOKED: '' @ ustr ''Training Session'' @ [0x20, 0x2014, 0x20] @ ustr ''Jane''"
proof -
  have run: "fst (api_book sample_runtime sample_env
                    (fake_calendar [] sample_event (Inr ())) jane 0)
     = (respond 200 (BookedBody (Some (ustr ''evt1''))
                       (Some (ustr ''https://calendar.example/evt1''))),
        [FreeBusyQuery (jane_query sample_env) (Inr (freebusy_answer [])),
         EventsInsert (jane_insert server_separator sample_env (customer_of jane))
           (Inr (Some \<lparr>data = Some sample_event\<rparr>))])"
    by (simp add: api_book_def jane_free sample_event_def or_null_def)
  have written: "summary (requestBody (jane_insert server_separator sample_env (customer_of jane)))
       = ustr ''BOOKED: '' @ ustr ''Training Session'' @ [0x20, 0xE2, 0x20AC, 0x201D, 0x20]
         @ ustr ''Jane''"
    by (simp add: jane_insert_def insert_request_of_def server_separator_def jane_def
          jane_customer_def ToString_def)
  show ?thesis
    using run written by simp
qed

section \<open>The customer check\<close>

text \<open>
  When the start is valid and the end is given or can be derived, the response is the 400
  of the customer check, with no call made, exactly when the name or the phone is not a
  string that is non-empty after trimming or the e-mail is not a string of the shape
  \<open>local@domain.tld\<close>.
\<close>

lemma customer_check:
  assumes "toIsoOrNull rt (get_prop (slot_of b) (ustr ''startIso'')) = Some s"
    and "(case toIsoOrNull rt (get_prop (slot_of b) (ustr ''endIso'')) of
            None \<Rightarrow> fallback_end rt env s | Some x \<Rightarrow> Inr x) = Inr e"
  shows "booking sep rt env cal b w
           = ((respond 400 (ErrorBody (ustr ''Please provide name, phone, and a valid email.'')),
               []), w)
         \<longleftrightarrow> \<not> (\<exists>x. get_prop (customer_of b) (ustr ''name'') = JStr x \<and> trim x \<noteq> [])
             \<or> \<not> (\<exists>x. get_prop (customer_of b) (ustr ''phone'') = JStr x \<and> trim x \<noteq> [])
             \<or> \<not> (\<exists>x. get_prop (customer_of b) (ustr ''email'') = JStr x \<and> local_domain_tld x)"
proof (cases "mustString (get_prop (customer_of b) (ustr ''name''))
            \<and> mustString (get_prop (customer_of b) (ustr ''phone''))
            \<and> isEmail (get_prop (customer_of b) (ustr ''email''))")
  case True
  then have run: "booking sep rt env cal b w
      = book_slot sep rt env cal (slot_of b) (customer_of b) (title_of rt (slot_of b)) s e w"
    using booking_run [OF assms] by simp
  obtain res calls where r: "fst (book_slot sep rt env cal (slot_of b) (customer_of b)
      (title_of rt (slot_of b)) s e w) = (res, calls)"
    by (cases "fst (book_slot sep rt env cal (slot_of b) (customer_of b)
      (title_of rt (slot_of b)) s e w)")
  from book_slot_shape [OF r] have "calls \<noteq> []"
    by auto
  with r run have "booking sep rt env cal b w
      \<noteq> ((respond 400 (ErrorBody (ustr ''Please provide name, phone, and a valid email.'')),
               []), w)"
    by auto
  with True show ?thesis
    by (simp add: mustString_iff isEmail_iff email_pattern_shape)
next
  case False
  then have "booking sep rt env cal b w
      = ((respond 400 (ErrorBody (ustr ''Please provide name, phone, and a valid email.'')),
               []), w)"
    using assms by (auto simp: booking_def Let_def)
  with False show ?thesis
    by (simp add: mustString_iff isEmail_iff email_pattern_shape)
qed

text \<open>
  Claim C3 fails where the end has to be derived and cannot be written: the fall-back runs
  before the customer check and throws, so a payload with a valid start (the last instant a
  Date can hold), no end and an empty name is answered with 500, not with the 400 of the
  customer check.
\<close>

theorem validation_unreached:
  "toIsoOrNull sample_runtime (get_prop (slot_of far_future_nameless) (ustr ''startIso''))
     = Some (ISO 8640000000000000)
   \<and> get_prop (customer_of far_future_nameless) (ustr ''name'') = JStr []
   \<and> api_book sample_runtime sample_env (fake_calendar [] sample_event (Inr ()))
       far_future_nameless 0
       = ((respond 500 (ErrorBody (ustr ''Server error creating booking.'')), []), 0)
   \<and> handler sample_runtime sample_env (fake_calendar [] sample_event (Inr ()))
       (post far_future_nameless) 0
       = ((respond 500 (ErrorBody (ustr ''Server error creating booking.'')), []), 0)"
  by (simp add: api_book_def handler_post far_future_fails server_error_def)
     (simp add: far_future_nameless_def)

section \<open>The fall-back end\<close>

text \<open>
  Claim C4 fails in two ways. A start so late that start plus duration is no time value
  leaves an invalid Date, \<open>toISOString\<close> throws, and the request fails with 500 although
  only the end was absent. And since the minutes are added to the local time of the
  server, in a zone that changes its offset the end is not the start plus the duration:
  on a server in New York a start at 01:30 local time on 2 November 2025 gets an end 120
  minutes later.
\<close>

theorem end_fallback_unwritable:
  "toIsoOrNull sample_runtime (get_prop (slot_of far_future) (ustr ''startIso''))
     = Some (ISO 8640000000000000)
   \<and> get_prop (slot_of far_future) (ustr ''endIso'') = JUndefined
   \<and> fallback_end sample_runtime sample_env (ISO 8640000000000000) = Inl RangeError
   \<and> api_book sample_runtime sample_env (fake_calendar [] sample_event (Inr ())) far_future 0
       = ((respond 500 (ErrorBody (ustr ''Server error creating booking.'')), []), 0)
   \<and> handler sample_runtime sample_env (fake_calendar [] sample_event (Inr ()))
       (post far_future) 0
       = ((respond 500 (ErrorBody (ustr ''Server error creating booking.'')), []), 0)
   \<and> fallback_end new_york_runtime sample_env (ISO 1762061400000)
       = Inr (ISO (1762061400000 + 120 * msPerMinute))"
  by (simp add: api_book_def handler_post far_future_fails server_error_def new_york_end
        msPerMinute_def)
     (simp add: far_future_def)


end
